theory Spec2Isabelle
  imports Main "HOL-Library.Sublist"
begin

section \<open>JavaScript strings\<close>

text \<open>
  Strings are character lists. The source only concatenates, searches and cuts strings,
  so nothing depends on the encoding of a character.
\<close>

text \<open>\<^verbatim>\<open>s.indexOf(pat)\<close>: the position of the first occurrence of \<open>pat\<close> in \<open>s\<close>;
  \<open>None\<close> stands for JavaScript's \<open>-1\<close>.\<close>

primrec indexOf :: "string \<Rightarrow> string \<Rightarrow> nat option" where
  "indexOf [] pat = (if pat = [] then Some 0 else None)"
| "indexOf (c # cs) pat =
     (if prefix pat (c # cs) then Some 0 else map_option Suc (indexOf cs pat))"

text \<open>\<^verbatim>\<open>s.includes(pat)\<close>.\<close>

definition str_includes :: "string \<Rightarrow> string \<Rightarrow> bool" where
  "str_includes s pat = (indexOf s pat \<noteq> None)"

text \<open>\<^verbatim>\<open>s.replace(pat, rep)\<close> with a string pattern: only the first occurrence is
  replaced. Every replacement string of the source is empty, so the \<open>$\<close> patterns of
  the replacement play no role.\<close>

definition replace :: "string \<Rightarrow> string \<Rightarrow> string \<Rightarrow> string" where
  "replace s pat rep =
     (case indexOf s pat of
        None \<Rightarrow> s
      | Some i \<Rightarrow> take i s @ rep @ drop (i + length pat) s)"

text \<open>\<^verbatim>\<open>s.split(c)\<close> for a one-character separator: never the empty array.\<close>

primrec split :: "char \<Rightarrow> string \<Rightarrow> string list" where
  "split c [] = [[]]"
| "split c (x # xs) =
     (if x = c then [] # split c xs
      else (case split c xs of
              [] \<Rightarrow> [[x]]
            | seg # segs \<Rightarrow> (x # seg) # segs))"

text \<open>\<^verbatim>\<open>parts.join(sep)\<close>.\<close>

fun join_with :: "string \<Rightarrow> string list \<Rightarrow> string" where
  "join_with sep [] = []"
| "join_with sep [p] = p"
| "join_with sep (p # q # ps) = p @ sep @ join_with sep (q # ps)"

text \<open>\<^verbatim>\<open>s.slice(-1)\<close>: the last character as a string, empty for the empty string.\<close>

definition slice_last :: "string \<Rightarrow> string" where
  "slice_last s = (if s = [] then [] else [last s])"

section \<open>node:path, POSIX flavour\<close>

text \<open>
  \<open>path.posix.normalize\<close> walks the segments between slashes: empty segments and
  \<open>.\<close> are dropped, \<open>..\<close> removes the segment before it (or is kept, for a relative
  path that climbs above its start), a trailing slash and a leading slash are kept.
\<close>

definition normalize_step :: "bool \<Rightarrow> string list \<Rightarrow> string \<Rightarrow> string list" where
  "normalize_step allowAboveRoot res seg =
     (if seg = [] \<or> seg = ''.'' then res
      else if seg = ''..'' then
        (if res \<noteq> [] \<and> last res \<noteq> ''..'' then butlast res
         else if allowAboveRoot then res @ [''..'']
         else res)
      else res @ [seg])"

definition normalizeString :: "string \<Rightarrow> bool \<Rightarrow> string" where
  "normalizeString p allowAboveRoot =
     join_with ''/'' (foldl (normalize_step allowAboveRoot) [] (split CHR ''/'' p))"

definition normalize :: "string \<Rightarrow> string" where
  "normalize p =
     (if p = [] then ''.''
      else
        let isAbsolute = (hd p = CHR ''/'');
            trailingSeparator = (last p = CHR ''/'');
            q = normalizeString p (\<not> isAbsolute)
        in if q = [] then (if isAbsolute then ''/'' else if trailingSeparator then ''./'' else ''.'')
           else (if isAbsolute then ''/'' else []) @ q @ (if trailingSeparator then ''/'' else []))"

text \<open>\<open>path.posix.join\<close>: the non-empty arguments, joined by a slash, normalized.\<close>

definition posix_join :: "string list \<Rightarrow> string" where
  "posix_join args =
     (let parts = filter (\<lambda>a. a \<noteq> []) args
      in if parts = [] then ''.'' else normalize (join_with ''/'' parts))"

text \<open>\<open>path.basename\<close>: trailing slashes are ignored, the rest after the last slash.\<close>

definition basename :: "string \<Rightarrow> string" where
  "basename p =
     rev (takeWhile (\<lambda>c. c \<noteq> CHR ''/'') (dropWhile (\<lambda>c. c = CHR ''/'') (rev p)))"

section \<open>The data of a build\<close>

text \<open>A JavaScript object with string values, as \<open>ejs\<close> and the \<open>s3Key\<close> hook
  receive it: a finite map from property names to values. Object spread is \<open>++\<close>.\<close>

type_synonym obj = "string \<rightharpoonup> string"

datatype Ext = TarGz | TarXz

fun ext_str :: "Ext \<Rightarrow> string" where
  "ext_str TarGz = ''.tar.gz''"
| "ext_str TarXz = ''.tar.xz''"

text \<open>\<open>TargetOptions\<close>. Platform and architecture are string unions in TypeScript and
  plain strings when the code runs.\<close>

record TargetOptions =
  arch :: string
  platform :: string

definition target_obj :: "TargetOptions \<Rightarrow> obj" where
  "target_obj t = [''arch'' \<mapsto> arch t, ''platform'' \<mapsto> platform t]"

text \<open>The \<open>options\<close> argument of \<open>s3Keys\<close>.\<close>

record KeyOptions =
  bin :: string
  sha :: string
  version :: string

definition options_obj :: "KeyOptions \<Rightarrow> obj" where
  "options_obj opts = [''bin'' \<mapsto> bin opts, ''sha'' \<mapsto> sha opts, ''version'' \<mapsto> version opts]"

text \<open>\<open>TarballConfig['s3Config']\<close>: every field is optional.\<close>

record S3Config =
  acl :: "string option"
  bucket :: "string option"
  folder :: "string option"

text \<open>
  \<open>Interfaces.Config\<close>, as far as the code reads it: the name and version of the CLI,
  \<open>pjson.oclif.update.s3.templates\<close> (absent or an object) and the \<open>s3Key\<close> hook of
  oclif/core, which is a parameter here: key type, optional extension, options object.
\<close>

record Config =
  config_bin :: string
  config_version :: string
  pjson_templates :: "obj option"
  s3Key :: "string \<Rightarrow> string option \<Rightarrow> obj \<Rightarrow> string"

datatype error =
    SyntaxError string
  | ReferenceError string
  | InvalidArch string
  | CLIError string "string list"
  | ClientError string

section \<open>upload-util: directories\<close>

definition s3SubDir :: "S3Config \<Rightarrow> string" where
  "s3SubDir s3Config =
     (let d = (case folder s3Config of None \<Rightarrow> [] | Some f \<Rightarrow> f)
      in if d \<noteq> [] \<and> slice_last d \<noteq> ''/'' then d @ ''/'' else d)"

definition commitAWSDir :: "string \<Rightarrow> string \<Rightarrow> S3Config \<Rightarrow> string" where
  "commitAWSDir ver commit s3Config =
     posix_join [s3SubDir s3Config, ''versions'', ver, commit]"

definition channelAWSDir :: "string \<Rightarrow> S3Config \<Rightarrow> string" where
  "channelAWSDir channel s3Config =
     posix_join [s3SubDir s3Config, ''channels'', channel]"

section \<open>ejs\<close>

text \<open>
  The templates of the source use one form of tag only, \<open><%- name %>\<close>: the value of
  \<open>name\<close> in the data object, written unescaped. A template is scanned into literal
  text and such tags; a tag that is not closed is a syntax error. \<open>render\<close> then writes
  the pieces; a name that the data object does not have is a ReferenceError.
\<close>

datatype token = Lit string | Var string

definition trim :: "string \<Rightarrow> string" where
  "trim s = rev (dropWhile (\<lambda>c. c = CHR '' '') (rev (dropWhile (\<lambda>c. c = CHR '' '') s)))"

definition literal :: "string \<Rightarrow> token list" where
  "literal acc = (if acc = [] then [] else [Lit (rev acc)])"

text \<open>\<open>scan skip inTag acc s\<close>: \<open>skip\<close> characters of a delimiter are still to be
  passed over, \<open>acc\<close> holds, reversed, the text or the tag content read so far.\<close>

fun scan :: "nat \<Rightarrow> bool \<Rightarrow> string \<Rightarrow> string \<Rightarrow> token list option" where
  "scan skip inTag acc [] = (if inTag then None else Some (literal acc))"
| "scan skip inTag acc (c # cs) =
     (if 0 < skip then scan (skip - 1) inTag acc cs
      else if \<not> inTag \<and> prefix ''<%-'' (c # cs) then
        (case scan 2 True [] cs of None \<Rightarrow> None | Some ts \<Rightarrow> Some (literal acc @ ts))
      else if inTag \<and> prefix ''%>'' (c # cs) then
        (case scan 1 False [] cs of None \<Rightarrow> None | Some ts \<Rightarrow> Some (Var (trim (rev acc)) # ts))
      else scan 0 inTag (c # acc) cs)"

fun render_tokens :: "token list \<Rightarrow> obj \<Rightarrow> error + string" where
  "render_tokens [] data = Inr []"
| "render_tokens (Lit s # ts) data =
     (case render_tokens ts data of Inl e \<Rightarrow> Inl e | Inr r \<Rightarrow> Inr (s @ r))"
| "render_tokens (Var x # ts) data =
     (case data x of
        None \<Rightarrow> Inl (ReferenceError x)
      | Some v \<Rightarrow> (case render_tokens ts data of Inl e \<Rightarrow> Inl e | Inr r \<Rightarrow> Inr (v @ r)))"

definition render :: "string \<Rightarrow> obj \<Rightarrow> error + string" where
  "render template data =
     (case scan 0 False [] template of
        None \<Rightarrow> Inl (SyntaxError ''Could not find matching close tag for <%-.'')
      | Some ts \<Rightarrow> render_tokens ts data)"

section \<open>upload-util: keys\<close>

datatype TemplateType = BaseDir | Deb | Macos | Manifest | Unversioned | Versioned | Win32

fun templates :: "TemplateType \<Rightarrow> string" where
  "templates BaseDir = ''<%- bin %>''"
| "templates Deb = ''<%- bin %>_<%- versionShaRevision %>_<%- arch %>.deb''"
| "templates Macos = ''<%- bin %>-v<%- version %>-<%- sha %>-<%- arch %>.pkg''"
| "templates Manifest =
     ''<%- bin %>-v<%- version %>-<%- sha %>-<%- platform %>-<%- arch %>-buildmanifest''"
| "templates Unversioned = ''<%- bin %>-<%- platform %>-<%- arch %><%- ext %>''"
| "templates Versioned =
     ''<%- bin %>-v<%- version %>-<%- sha %>-<%- platform %>-<%- arch %><%- ext %>''"
| "templates Win32 = ''<%- bin %>-v<%- version %>-<%- sha %>-<%- arch %>.exe''"

definition templateShortKey :: "TemplateType \<Rightarrow> obj option \<Rightarrow> error + string" where
  "templateShortKey type options =
     render (templates type)
       (case options of None \<Rightarrow> [''root'' \<mapsto> ''.''] | Some opts \<Rightarrow> opts)"

text \<open>The seven templates as \<open>scan\<close> reads them.\<close>

fun template_tokens :: "TemplateType \<Rightarrow> token list" where
  "template_tokens BaseDir = [Var ''bin'']"
| "template_tokens Deb =
     [Var ''bin'', Lit ''_'', Var ''versionShaRevision'', Lit ''_'', Var ''arch'', Lit ''.deb'']"
| "template_tokens Macos =
     [Var ''bin'', Lit ''-v'', Var ''version'', Lit ''-'', Var ''sha'', Lit ''-'', Var ''arch'',
      Lit ''.pkg'']"
| "template_tokens Manifest =
     [Var ''bin'', Lit ''-v'', Var ''version'', Lit ''-'', Var ''sha'', Lit ''-'',
      Var ''platform'', Lit ''-'', Var ''arch'', Lit ''-buildmanifest'']"
| "template_tokens Unversioned =
     [Var ''bin'', Lit ''-'', Var ''platform'', Lit ''-'', Var ''arch'', Var ''ext'']"
| "template_tokens Versioned =
     [Var ''bin'', Lit ''-v'', Var ''version'', Lit ''-'', Var ''sha'', Lit ''-'',
      Var ''platform'', Lit ''-'', Var ''arch'', Var ''ext'']"
| "template_tokens Win32 =
     [Var ''bin'', Lit ''-v'', Var ''version'', Lit ''-'', Var ''sha'', Lit ''-'', Var ''arch'',
      Lit ''.exe'']"

definition hasCustom :: "Config \<Rightarrow> bool" where
  "hasCustom config = (pjson_templates config \<noteq> None)"

text \<open>The six functions of the object that \<open>s3Keys(config, s3Config, options)\<close> returns.\<close>

definition channelManifest ::
  "Config \<Rightarrow> S3Config \<Rightarrow> KeyOptions \<Rightarrow> TargetOptions \<Rightarrow> string \<Rightarrow> error + string" where
  "channelManifest config s3Config options target channel =
     (if hasCustom config
      then Inr (s3Key config ''manifest'' None (target_obj target ++ [''channel'' \<mapsto> channel]))
      else
        (case templateShortKey Manifest (Some (options_obj options ++ target_obj target)) of
           Inl e \<Rightarrow> Inl e
         | Inr manifest \<Rightarrow>
             let unversionedManifest =
                   replace manifest (''-v'' @ version options @ ''-'' @ sha options) []
             in Inr (channelAWSDir channel s3Config @ ''/'' @ unversionedManifest)))"

definition channelTarball ::
  "Config \<Rightarrow> S3Config \<Rightarrow> KeyOptions \<Rightarrow> Ext \<Rightarrow> TargetOptions \<Rightarrow> string \<Rightarrow> error + string" where
  "channelTarball config s3Config options ext target channel =
     (if hasCustom config
      then Inr (s3Key config ''unversioned'' (Some (ext_str ext))
                  (target_obj target ++ [''channel'' \<mapsto> channel]))
      else
        (case templateShortKey Unversioned
                (Some (options_obj options ++ target_obj target ++ [''ext'' \<mapsto> ext_str ext])) of
           Inl e \<Rightarrow> Inl e
         | Inr k \<Rightarrow> Inr (channelAWSDir channel s3Config @ ''/'' @ k)))"

definition cloudKey :: "Config \<Rightarrow> S3Config \<Rightarrow> KeyOptions \<Rightarrow> string \<Rightarrow> string" where
  "cloudKey config s3Config options localKey =
     (if hasCustom config then localKey
      else commitAWSDir (version options) (sha options) s3Config @ ''/'' @ localKey)"

definition indexFilename ::
  "Config \<Rightarrow> S3Config \<Rightarrow> KeyOptions \<Rightarrow> Ext \<Rightarrow> TargetOptions \<Rightarrow> string \<Rightarrow> error + string" where
  "indexFilename config s3Config options ext target channel =
     (if hasCustom config
      then Inr (s3Key config ''unversioned'' (Some (ext_str ext))
                  (target_obj target ++ [''channel'' \<mapsto> channel]))
      else templateShortKey Unversioned
             (Some (options_obj options ++ target_obj target ++ [''ext'' \<mapsto> ext_str ext])))"

definition manifest ::
  "Config \<Rightarrow> S3Config \<Rightarrow> KeyOptions \<Rightarrow> TargetOptions \<Rightarrow> error + string" where
  "manifest config s3Config options target =
     (if hasCustom config
      then Inr (s3Key config ''manifest'' None (target_obj target))
      else templateShortKey Manifest (Some (options_obj options ++ target_obj target)))"

definition versioned ::
  "Config \<Rightarrow> S3Config \<Rightarrow> KeyOptions \<Rightarrow> Ext \<Rightarrow> TargetOptions \<Rightarrow> error + string" where
  "versioned config s3Config options ext target =
     (if hasCustom config
      then Inr (s3Key config ''versioned'' (Some (ext_str ext)) (target_obj target))
      else templateShortKey Versioned
             (Some (options_obj options ++ target_obj target ++ [''ext'' \<mapsto> ext_str ext])))"

definition debArch :: "string \<Rightarrow> error + string" where
  "debArch a =
     (if a = ''x64'' then Inr ''amd64''
      else if a = ''x86'' then Inr ''i386''
      else if a = ''arm'' then Inr ''armel''
      else if a = ''arm64'' then Inr ''arm64''
      else Inl (InvalidArch (''invalid arch: '' @ a)))"

text \<open>
  \<open>BuildConfig\<close> of \<open>tarballs/config\<close>, as the three files read it. \<open>dist\<close> is its
  path helper into the local distribution directory.
\<close>

record BuildConfig =
  config :: Config
  dist :: "string \<Rightarrow> string"
  gitSha :: string
  s3Config :: S3Config
  targets :: "TargetOptions list"
  xz :: bool

text \<open>\<open>version.split('-')[0]\<close>; indexing an empty array would give \<open>undefined\<close>.\<close>

definition debVersion :: "BuildConfig \<Rightarrow> string" where
  "debVersion buildConfig =
     (case split CHR ''-'' (config_version (config buildConfig)) of
        [] \<Rightarrow> ''undefined''
      | v # _ \<Rightarrow> v) @ ''.'' @ gitSha buildConfig @ ''-1''"

section \<open>The world outside: file system, storage client, index helper\<close>

record PutParams =
  put_ACL :: string
  put_Bucket :: "string option"
  put_CacheControl :: string
  put_ContentType :: string
  put_Key :: string

record CopyParams =
  ACL :: string
  Bucket :: string
  CacheControl :: string
  CopySource :: string
  Key :: string
  MetadataDirective :: string

record CopyOptions =
  dryRun :: bool
  ignoreMissing :: bool
  namespace :: string

record IndexInput =
  index_dryRun :: bool
  index_filename :: string
  index_maxAge :: string
  index_originalUrl :: string
  index_s3Config :: S3Config
  index_version :: string

text \<open>What a command does to the outside, in the order in which the calls are made.\<close>

datatype event =
    Log string
  | Warn string
  | ActionStop string
  | UploadFile string PutParams bool
  | CopyObject CopyParams CopyOptions
  | AppendToIndex IndexInput

text \<open>
  The collaborators are parameters: \<open>fs.existsSync\<close>, and for each call of the storage
  client and of the index helper whether its promise is rejected.
\<close>

record World =
  existsSync :: "string \<Rightarrow> bool"
  uploadFile_rejects :: "string \<Rightarrow> PutParams \<Rightarrow> bool \<Rightarrow> error option"
  copyObject_rejects :: "CopyParams \<Rightarrow> CopyOptions \<Rightarrow> error option"
  appendToIndex_rejects :: "IndexInput \<Rightarrow> error option"

text \<open>
  An asynchronous task is modelled by the calls it makes before it first waits, in their
  order, and the errors it is rejected with. A task whose keys cannot be computed makes
  no call; \<open>Promise.all\<close> starts every task, whatever happens to its siblings. What a
  command does after it has waited (a closing log line, \<open>ux.action.stop\<close>) comes
  after all of these calls.
\<close>

type_synonym task = "event list \<times> error list"

definition with_key :: "error + 'a \<Rightarrow> ('a \<Rightarrow> task) \<Rightarrow> task" where
  "with_key r f = (case r of Inl e \<Rightarrow> ([], [e]) | Inr k \<Rightarrow> f k)"

definition promise_all :: "task list \<Rightarrow> task" where
  "promise_all ts = (concat (map fst ts), concat (map snd ts))"

definition rejected :: "error option \<Rightarrow> error list" where
  "rejected r = (case r of None \<Rightarrow> [] | Some e \<Rightarrow> [e])"

definition uploadFile :: "World \<Rightarrow> string \<Rightarrow> PutParams \<Rightarrow> bool \<Rightarrow> task" where
  "uploadFile w local params dry =
     ([UploadFile local params dry], rejected (uploadFile_rejects w local params dry))"

definition copyObject :: "World \<Rightarrow> CopyParams \<Rightarrow> CopyOptions \<Rightarrow> task" where
  "copyObject w params opts =
     ([CopyObject params opts], rejected (copyObject_rejects w params opts))"

definition appendToIndex :: "World \<Rightarrow> IndexInput \<Rightarrow> task" where
  "appendToIndex w input = ([AppendToIndex input], rejected (appendToIndex_rejects w input))"

section \<open>commands/upload/tarballs: \<open>UploadTarballs.run\<close>\<close>

text \<open>The command takes its build configuration from \<open>Tarballs.buildConfig\<close> and its
  \<open>--dry-run\<close> flag; both are arguments here.\<close>

definition upload_options :: "BuildConfig \<Rightarrow> KeyOptions" where
  "upload_options buildConfig =
     \<lparr>bin = config_bin (config buildConfig), sha = gitSha buildConfig,
      version = config_version (config buildConfig)\<rparr>"

text \<open>The loop "fail early if targets are not built": the error of the first target
  whose \<open>.tar.gz\<close> is not on disk.\<close>

fun fail_early :: "World \<Rightarrow> BuildConfig \<Rightarrow> TargetOptions list \<Rightarrow> error option" where
  "fail_early w buildConfig [] = None"
| "fail_early w buildConfig (target # rest) =
     (case versioned (config buildConfig) (s3Config buildConfig) (upload_options buildConfig)
             TarGz \<lparr>arch = arch target, platform = platform target\<rparr> of
        Inl e \<Rightarrow> Some e
      | Inr k \<Rightarrow>
          let tarball = dist buildConfig k in
          if \<not> existsSync w tarball
          then Some (CLIError
                 (''Cannot find a tarball '' @ tarball @ '' for '' @ platform target @ ''-''
                    @ arch target)
                 [''Run '' @ [CHR 0x22] @ ''oclif pack --target '' @ platform target @ ''-''
                    @ arch target @ [CHR 0x22] @ '' before uploading''])
          else fail_early w buildConfig rest)"

definition S3Options_ACL :: "S3Config \<Rightarrow> string" where
  "S3Options_ACL s3 =
     (case acl s3 of None \<Rightarrow> ''public-read'' | Some a \<Rightarrow> if a = [] then ''public-read'' else a)"

definition releaseTarballs :: "World \<Rightarrow> bool \<Rightarrow> BuildConfig \<Rightarrow> TargetOptions \<Rightarrow> Ext \<Rightarrow> task" where
  "releaseTarballs w dry buildConfig target ext =
     with_key (versioned (config buildConfig) (s3Config buildConfig) (upload_options buildConfig)
                 ext target)
       (\<lambda>localKey.
          uploadFile w (dist buildConfig localKey)
            \<lparr>put_ACL = S3Options_ACL (s3Config buildConfig),
             put_Bucket = bucket (s3Config buildConfig),
             put_CacheControl = ''max-age=604800'',
             put_ContentType = ''application/gzip'',
             put_Key = cloudKey (config buildConfig) (s3Config buildConfig)
                         (upload_options buildConfig) localKey\<rparr>
            dry)"

definition maybeUploadManifest :: "World \<Rightarrow> bool \<Rightarrow> BuildConfig \<Rightarrow> TargetOptions \<Rightarrow> task" where
  "maybeUploadManifest w dry buildConfig target =
     with_key (manifest (config buildConfig) (s3Config buildConfig) (upload_options buildConfig)
                 target)
       (\<lambda>m.
          let local = dist buildConfig m in
          if existsSync w local
          then promise_all
                 [([Log (''checking for buildmanifest at '' @ local),
                    Log (''uploading buildmanifest '' @ m)], []),
                  uploadFile w (dist buildConfig m)
                    \<lparr>put_ACL = S3Options_ACL (s3Config buildConfig),
                     put_Bucket = bucket (s3Config buildConfig),
                     put_CacheControl = ''max-age=86400'',
                     put_ContentType = ''application/json'',
                     put_Key = cloudKey (config buildConfig) (s3Config buildConfig)
                                 (upload_options buildConfig) m\<rparr>
                    dry]
          else ([Log (''checking for buildmanifest at '' @ local),
                 Warn (''Cannot find buildmanifest '' @ local
                         @ ''. CLI will not be able to update itself.'')], []))"

definition uploadTarball :: "World \<Rightarrow> bool \<Rightarrow> BuildConfig \<Rightarrow> TargetOptions \<Rightarrow> task" where
  "uploadTarball w dry buildConfig options =
     (let target = \<lparr>arch = arch options, platform = platform options\<rparr> in
      promise_all
        ([releaseTarballs w dry buildConfig target TarGz,
          maybeUploadManifest w dry buildConfig target]
         @ (if xz buildConfig then [releaseTarballs w dry buildConfig target TarXz] else [])))"

text \<open>The whole command. The last log line is written only when no upload was rejected.\<close>

definition UploadTarballs_run :: "World \<Rightarrow> bool \<Rightarrow> BuildConfig \<Rightarrow> task" where
  "UploadTarballs_run w dry buildConfig =
     (case fail_early w buildConfig (targets buildConfig) of
        Some e \<Rightarrow> ([], [e])
      | None \<Rightarrow>
          let uploads = promise_all (map (uploadTarball w dry buildConfig) (targets buildConfig))
          in ((if targets buildConfig \<noteq> [] then [Log ''uploading targets''] else [])
              @ fst uploads
              @ (if snd uploads = []
                 then [Log (''done uploading tarballs & manifests for v''
                              @ config_version (config buildConfig) @ ''-'' @ gitSha buildConfig)]
                 else []),
              snd uploads))"

section \<open>commands/promote: \<open>Promote.run\<close>\<close>

record Flags =
  flag_channel :: string
  flag_deb :: bool
  flag_dry_run :: bool
  flag_ignore_missing :: bool
  flag_indexes :: bool
  flag_macos :: bool
  flag_max_age :: string
  flag_sha :: string
  flag_version :: string
  flag_win :: bool
  flag_xz :: bool

definition promote_options :: "Flags \<Rightarrow> BuildConfig \<Rightarrow> KeyOptions" where
  "promote_options flags buildConfig =
     \<lparr>bin = config_bin (config buildConfig), sha = flag_sha flags, version = flag_version flags\<rparr>"

text \<open>\<open>awsDefaults\<close> with the two fields every copy adds; \<open>bkt\<close> is the bucket, known to
  be present when a copy is made.\<close>

definition awsDefaults :: "Flags \<Rightarrow> BuildConfig \<Rightarrow> string \<Rightarrow> string \<Rightarrow> string \<Rightarrow> CopyParams" where
  "awsDefaults flags buildConfig bkt copySource destKey =
     \<lparr>ACL = (case acl (s3Config buildConfig) of None \<Rightarrow> ''public-read'' | Some a \<Rightarrow> a),
      Bucket = bkt,
      CacheControl = ''max-age='' @ flag_max_age flags,
      CopySource = copySource,
      Key = destKey,
      MetadataDirective = ''REPLACE''\<rparr>"

definition indexDefaults :: "Flags \<Rightarrow> BuildConfig \<Rightarrow> string \<Rightarrow> string \<Rightarrow> IndexInput" where
  "indexDefaults flags buildConfig name url =
     \<lparr>index_dryRun = flag_dry_run flags,
      index_filename = name,
      index_maxAge = ''max-age='' @ flag_max_age flags,
      index_originalUrl = url,
      index_s3Config = s3Config buildConfig,
      index_version = flag_version flags\<rparr>"

definition cloudBucketCommitKey :: "Flags \<Rightarrow> BuildConfig \<Rightarrow> string \<Rightarrow> string \<Rightarrow> string" where
  "cloudBucketCommitKey flags buildConfig bkt shortKey =
     posix_join [bkt, commitAWSDir (flag_version flags) (flag_sha flags) (s3Config buildConfig),
                 shortKey]"

definition cloudChannelKey :: "Flags \<Rightarrow> BuildConfig \<Rightarrow> string \<Rightarrow> string" where
  "cloudChannelKey flags buildConfig shortKey =
     posix_join [channelAWSDir (flag_channel flags) (s3Config buildConfig), shortKey]"

definition copy_options :: "Flags \<Rightarrow> string \<Rightarrow> CopyOptions" where
  "copy_options flags name =
     \<lparr>dryRun = flag_dry_run flags, ignoreMissing = flag_ignore_missing flags, namespace = name\<rparr>"

definition promoteManifest :: "World \<Rightarrow> Flags \<Rightarrow> BuildConfig \<Rightarrow> string \<Rightarrow> TargetOptions \<Rightarrow> task" where
  "promoteManifest w flags buildConfig bkt target =
     (let keyTarget = \<lparr>arch = arch target, platform = platform target\<rparr> in
      with_key (manifest (config buildConfig) (s3Config buildConfig)
                  (promote_options flags buildConfig) keyTarget)
        (\<lambda>m.
           let sourceKey = cloudKey (config buildConfig) (s3Config buildConfig)
                             (promote_options flags buildConfig) m
           in with_key (channelManifest (config buildConfig) (s3Config buildConfig)
                          (promote_options flags buildConfig) keyTarget (flag_channel flags))
                (\<lambda>destKey.
                   copyObject w
                     (awsDefaults flags buildConfig bkt (posix_join [bkt, sourceKey]) destKey)
                     (copy_options flags (basename destKey)))))"

text \<open>\<open>promoteGzTarballs\<close> and \<open>promoteXzTarballs\<close> are the same text but for the
  extension.\<close>

definition promoteTarballs ::
  "World \<Rightarrow> Flags \<Rightarrow> BuildConfig \<Rightarrow> string \<Rightarrow> Ext \<Rightarrow> TargetOptions \<Rightarrow> task" where
  "promoteTarballs w flags buildConfig bkt ext target =
     (let targetOpts = \<lparr>arch = arch target, platform = platform target\<rparr> in
      with_key (versioned (config buildConfig) (s3Config buildConfig)
                  (promote_options flags buildConfig) ext targetOpts)
        (\<lambda>v.
           let sourceKey = cloudKey (config buildConfig) (s3Config buildConfig)
                             (promote_options flags buildConfig) v
           in with_key (channelTarball (config buildConfig) (s3Config buildConfig)
                          (promote_options flags buildConfig) ext targetOpts (flag_channel flags))
                (\<lambda>destKey.
                   let copySource = posix_join [bkt, sourceKey]
                   in with_key (indexFilename (config buildConfig) (s3Config buildConfig)
                                  (promote_options flags buildConfig) ext targetOpts
                                  (flag_channel flags))
                        (\<lambda>name.
                           promise_all
                             ([copyObject w (awsDefaults flags buildConfig bkt copySource destKey)
                                 (copy_options flags name)]
                              @ (if flag_indexes flags
                                 then [appendToIndex w
                                         (indexDefaults flags buildConfig name copySource)]
                                 else []))))))"

definition promoteGzTarballs :: "World \<Rightarrow> Flags \<Rightarrow> BuildConfig \<Rightarrow> string \<Rightarrow> TargetOptions \<Rightarrow> task" where
  "promoteGzTarballs w flags buildConfig bkt target =
     promoteTarballs w flags buildConfig bkt TarGz target"

definition promoteXzTarballs :: "World \<Rightarrow> Flags \<Rightarrow> BuildConfig \<Rightarrow> string \<Rightarrow> TargetOptions \<Rightarrow> task" where
  "promoteXzTarballs w flags buildConfig bkt target =
     promoteTarballs w flags buildConfig bkt TarXz target"

text \<open>Modelled from the spec: \<open>uniq\<close> of \<open>util\<close>, which is not among the sources; the
  spec has "each distinct architecture present among darwin targets". The first
  occurrence of each element is kept.\<close>

primrec uniq :: "'a list \<Rightarrow> 'a list" where
  "uniq [] = []"
| "uniq (x # xs) = x # filter (\<lambda>y. y \<noteq> x) (uniq xs)"

text \<open>The body that \<open>promoteMacInstallers\<close> and \<open>promoteWindowsInstallers\<close> run for one
  architecture: copy the installer to its name without version and sha.\<close>

definition promoteInstaller ::
  "World \<Rightarrow> Flags \<Rightarrow> BuildConfig \<Rightarrow> string \<Rightarrow> TemplateType \<Rightarrow> string \<Rightarrow> task" where
  "promoteInstaller w flags buildConfig bkt type a =
     with_key (templateShortKey type
                 (Some [''arch'' \<mapsto> a, ''bin'' \<mapsto> config_bin (config buildConfig),
                        ''sha'' \<mapsto> flag_sha flags, ''version'' \<mapsto> flag_version flags]))
       (\<lambda>pkg.
          let copySource = cloudBucketCommitKey flags buildConfig bkt pkg;
              unversionedPkg =
                replace pkg (''-v'' @ flag_version flags @ ''-'' @ flag_sha flags) []
          in promise_all
               ([copyObject w
                   (awsDefaults flags buildConfig bkt copySource
                      (cloudChannelKey flags buildConfig unversionedPkg))
                   (copy_options flags unversionedPkg)]
                @ (if flag_indexes flags
                   then [appendToIndex w
                           (indexDefaults flags buildConfig unversionedPkg copySource)]
                   else [])))"

definition promoteMacInstallers :: "World \<Rightarrow> Flags \<Rightarrow> BuildConfig \<Rightarrow> string \<Rightarrow> task" where
  "promoteMacInstallers w flags buildConfig bkt =
     (let arches = uniq (map arch (filter (\<lambda>t. platform t = ''darwin'') (targets buildConfig)))
      in promise_all (map (promoteInstaller w flags buildConfig bkt Macos) arches))"

text \<open>
  \<open>promoteWindowsInstallers\<close> runs in two parts. Before its await it issues, for every
  win32 architecture, the copy and the index update. After the await, once the calls of
  an architecture have returned without a rejection, it calls \<open>ux.action.stop\<close>; by
  then the command has issued every call that it makes before its own await.
\<close>

definition promoteWindowsInstallers :: "World \<Rightarrow> Flags \<Rightarrow> BuildConfig \<Rightarrow> string \<Rightarrow> task" where
  "promoteWindowsInstallers w flags buildConfig bkt =
     (let arches = map arch (filter (\<lambda>t. platform t = ''win32'') (targets buildConfig))
      in promise_all (map (promoteInstaller w flags buildConfig bkt Win32) arches))"

definition promoteWindowsInstallers_resumed ::
  "World \<Rightarrow> Flags \<Rightarrow> BuildConfig \<Rightarrow> string \<Rightarrow> event list" where
  "promoteWindowsInstallers_resumed w flags buildConfig bkt =
     (let arches = map arch (filter (\<lambda>t. platform t = ''win32'') (targets buildConfig))
      in concat (map (\<lambda>a. if snd (promoteInstaller w flags buildConfig bkt Win32 a) = []
                           then [ActionStop ''successfully''] else [])
                   arches))"

text \<open>Evaluating the elements of an array literal from left to right: the first one
  that throws ends the evaluation.\<close>

fun collect :: "(error + 'a) list \<Rightarrow> error + 'a list" where
  "collect [] = Inr []"
| "collect (r # rs) =
     (case r of
        Inl e \<Rightarrow> Inl e
      | Inr x \<Rightarrow> (case collect rs of Inl e \<Rightarrow> Inl e | Inr xs \<Rightarrow> Inr (x # xs)))"

definition debKey :: "BuildConfig \<Rightarrow> TargetOptions \<Rightarrow> error + string" where
  "debKey buildConfig a =
     (case debArch (arch a) of
        Inl e \<Rightarrow> Inl e
      | Inr d \<Rightarrow>
          templateShortKey Deb
            (Some [''arch'' \<mapsto> d, ''bin'' \<mapsto> config_bin (config buildConfig),
                   ''versionShaRevision'' \<mapsto> debVersion buildConfig]))"

definition debArtifacts :: "BuildConfig \<Rightarrow> error + string list" where
  "debArtifacts buildConfig =
     (let arches = filter (\<lambda>t. platform t = ''linux'') (targets buildConfig)
      in case collect (map (debKey buildConfig)
                         (filter (\<lambda>a. \<not> str_includes (arch a) ''x86'') arches)) of
           Inl e \<Rightarrow> Inl e
         | Inr debs \<Rightarrow>
             Inr (debs @ [''Packages.gz'', ''Packages.xz'', ''Packages.bz2'', ''Release'',
                          ''InRelease'', ''Release.gpg'']))"

definition promoteArtifact :: "World \<Rightarrow> Flags \<Rightarrow> BuildConfig \<Rightarrow> string \<Rightarrow> string \<Rightarrow> task list" where
  "promoteArtifact w flags buildConfig bkt artifact =
     (let debCopySource = cloudBucketCommitKey flags buildConfig bkt (''apt/'' @ artifact);
          destKey = cloudChannelKey flags buildConfig (''apt/'' @ artifact);
          workaroundKey = cloudChannelKey flags buildConfig ''apt/'' @ ''./'' @ artifact
      in [copyObject w (awsDefaults flags buildConfig bkt debCopySource destKey)
            (copy_options flags destKey),
          copyObject w (awsDefaults flags buildConfig bkt debCopySource workaroundKey)
            (copy_options flags workaroundKey)])"

definition promoteDebianAptPackages :: "World \<Rightarrow> Flags \<Rightarrow> BuildConfig \<Rightarrow> string \<Rightarrow> task" where
  "promoteDebianAptPackages w flags buildConfig bkt =
     with_key (debArtifacts buildConfig)
       (\<lambda>artifacts.
          promise_all (concat (map (promoteArtifact w flags buildConfig bkt) artifacts)))"

definition Promote_run :: "World \<Rightarrow> Flags \<Rightarrow> BuildConfig \<Rightarrow> task" where
  "Promote_run w flags buildConfig =
     (let announce =
            (if flag_ignore_missing flags
             then [Warn (''--ignore-missing flag is being used - This command will continue ''
                         @ ''to run even if a promotion fails because it doesn'' @ [CHR 0x27]
                         @ ''t exist'')]
             else [])
            @ [Log (''Promoting v'' @ flag_version flags @ '' ('' @ flag_sha flags @ '') to ''
                    @ flag_channel flags @ '' channel'' @ [CHR 0x0A])];
          noBucket = (announce, [CLIError ''Cannot determine S3 bucket for promotion'' []])
      in case bucket (s3Config buildConfig) of
           None \<Rightarrow> noBucket
         | Some bkt \<Rightarrow>
             if bkt = [] then noBucket
             else
               let copies =
                     promise_all
                       (concat (map (\<lambda>target. [promoteManifest w flags buildConfig bkt target,
                                                promoteGzTarballs w flags buildConfig bkt target])
                                  (targets buildConfig))
                        @ (if flag_xz flags
                           then map (promoteXzTarballs w flags buildConfig bkt)
                                  (targets buildConfig)
                           else [])
                        @ (if flag_macos flags
                           then [promoteMacInstallers w flags buildConfig bkt] else [])
                        @ (if flag_win flags
                           then [promoteWindowsInstallers w flags buildConfig bkt] else [])
                        @ (if flag_deb flags
                           then [promoteDebianAptPackages w flags buildConfig bkt] else []))
               in (announce @ fst copies
                   @ (if flag_win flags
                      then promoteWindowsInstallers_resumed w flags buildConfig bkt else []),
                   snd copies))"

section \<open>Outcome of a run\<close>

text \<open>The error, if any, with which the collaborator rejects the call that an event
  records. Log lines and warnings reject nothing.\<close>

definition rejections :: "World \<Rightarrow> event \<Rightarrow> error list" where
  "rejections w e =
     (case e of
        UploadFile local params dry \<Rightarrow> rejected (uploadFile_rejects w local params dry)
      | CopyObject params opts \<Rightarrow> rejected (copyObject_rejects w params opts)
      | AppendToIndex input \<Rightarrow> rejected (appendToIndex_rejects w input)
      | _ \<Rightarrow> [])"

text \<open>An upload or a copy that asks for the canned ACL \<open>public-read\<close>; true of every
  other event.\<close>

definition public_read :: "event \<Rightarrow> bool" where
  "public_read e =
     (case e of
        UploadFile local params dry \<Rightarrow> put_ACL params = ''public-read''
      | CopyObject params opts \<Rightarrow> ACL params = ''public-read''
      | _ \<Rightarrow> True)"

section \<open>Example inputs\<close>

text \<open>The hook that the tests of \<open>upload-util\<close> install as \<open>config.s3Key\<close>: it encodes
  its arguments in its result.\<close>

definition mock_s3Key :: "string \<Rightarrow> string option \<Rightarrow> obj \<Rightarrow> string" where
  "mock_s3Key type ext opts =
     join_with ''/''
       ([''custom'', type,
         (case opts ''platform'' of None \<Rightarrow> ''noplatform'' | Some p \<Rightarrow> p) @ ''-''
           @ (case opts ''arch'' of None \<Rightarrow> ''noarch'' | Some a \<Rightarrow> a)
           @ (case ext of None \<Rightarrow> [] | Some e \<Rightarrow> e)]
        @ (case opts ''channel'' of None \<Rightarrow> [] | Some ch \<Rightarrow> if ch = [] then [] else [ch]))"

definition test_config :: "bool \<Rightarrow> Config" where
  "test_config hasCustomTemplates =
     \<lparr>config_bin = ''mycli'', config_version = ''1.2.3'',
      pjson_templates =
        (if hasCustomTemplates
         then Some [''manifest'' \<mapsto> ''custom/<%- platform %>-<%- arch %>-manifest'',
                    ''unversioned'' \<mapsto> ''custom/<%- platform %>-<%- arch %><%- ext %>'',
                    ''versioned'' \<mapsto> ''custom/<%- platform %>-<%- arch %><%- ext %>'']
         else None),
      s3Key = mock_s3Key\<rparr>"

definition test_s3Config :: S3Config where
  "test_s3Config = \<lparr>acl = None, bucket = Some ''my-bucket'', folder = None\<rparr>"

definition defaultOpts :: KeyOptions where
  "defaultOpts = \<lparr>bin = ''mycli'', sha = ''abc1234'', version = ''1.2.3''\<rparr>"

definition linux_x64 :: TargetOptions where
  "linux_x64 = \<lparr>arch = ''x64'', platform = ''linux''\<rparr>"

definition darwin_arm64 :: TargetOptions where
  "darwin_arm64 = \<lparr>arch = ''arm64'', platform = ''darwin''\<rparr>"

text \<open>A build of \<open>mycli\<close> for the given targets, with its tarballs under \<open>dist/\<close>.\<close>

definition test_buildConfig :: "Config \<Rightarrow> TargetOptions list \<Rightarrow> bool \<Rightarrow> BuildConfig" where
  "test_buildConfig c ts withXz =
     \<lparr>config = c, dist = (\<lambda>k. ''dist/'' @ k), gitSha = ''abc1234'', s3Config = test_s3Config,
      targets = ts, xz = withXz\<rparr>"

text \<open>A world with the given files on disk, whose storage client reads the local file
  of an upload (and so rejects the upload of a file that is not there, unless the run is
  dry), and where every copy and every index update goes through.\<close>

definition test_world :: "string list \<Rightarrow> World" where
  "test_world files =
     \<lparr>existsSync = (\<lambda>p. p \<in> set files),
      uploadFile_rejects =
        (\<lambda>local params dry.
           if dry \<or> local \<in> set files then None
           else Some (ClientError (''ENOENT: no such file or directory, open '' @ local))),
      copyObject_rejects = (\<lambda>params opts. None),
      appendToIndex_rejects = (\<lambda>input. None)\<rparr>"

definition test_flags :: Flags where
  "test_flags =
     \<lparr>flag_channel = ''stable'', flag_deb = True, flag_dry_run = False,
      flag_ignore_missing = False, flag_indexes = False, flag_macos = True,
      flag_max_age = ''86400'', flag_sha = ''abc1234'', flag_version = ''1.2.3'',
      flag_win = True, flag_xz = False\<rparr>"

section \<open>Properties of the key builder\<close>

lemma scan_templates: "scan 0 False [] (templates type) = Some (template_tokens type)"
  by (cases type) (simp_all add: literal_def trim_def)

lemma templateShortKey_tokens:
  "templateShortKey type options
   = render_tokens (template_tokens type)
       (case options of None \<Rightarrow> [''root'' \<mapsto> ''.''] | Some opts \<Rightarrow> opts)"
  by (simp add: templateShortKey_def render_def scan_templates)

text \<open>The defining equations by which the models are evaluated on concrete inputs.\<close>

lemmas key_defs =
  versioned_def manifest_def channelManifest_def channelTarball_def indexFilename_def cloudKey_def
  templateShortKey_tokens hasCustom_def options_obj_def target_obj_def replace_def
  commitAWSDir_def channelAWSDir_def s3SubDir_def slice_last_def posix_join_def normalize_def
  normalizeString_def normalize_step_def basename_def

lemmas upload_defs =
  UploadTarballs_run_def uploadTarball_def releaseTarballs_def maybeUploadManifest_def
  upload_options_def S3Options_ACL_def uploadFile_def with_key_def promise_all_def rejected_def
  Let_def

lemmas test_defs =
  test_buildConfig_def test_config_def test_s3Config_def test_world_def test_flags_def
  linux_x64_def darwin_arm64_def defaultOpts_def

lemmas promote_defs =
  Promote_run_def promoteManifest_def promoteGzTarballs_def promoteXzTarballs_def
  promoteTarballs_def promoteInstaller_def promoteMacInstallers_def promoteWindowsInstallers_def
  promoteWindowsInstallers_resumed_def
  promoteDebianAptPackages_def promoteArtifact_def debArtifacts_def debKey_def debArch_def
  debVersion_def str_includes_def awsDefaults_def indexDefaults_def cloudBucketCommitKey_def
  cloudChannelKey_def copy_options_def promote_options_def copyObject_def appendToIndex_def
  with_key_def promise_all_def rejected_def Let_def

text \<open>The expectations of the tests of \<open>upload-util\<close> hold of the model.\<close>

lemma test_templateShortKey:
  "templateShortKey Deb
     (Some [''arch'' \<mapsto> ''amd64'', ''bin'' \<mapsto> ''foo'', ''sha'' \<mapsto> ''123456'',
            ''version'' \<mapsto> ''1.2.3'', ''versionShaRevision'' \<mapsto> ''1''])
   = Inr ''foo_1_amd64.deb''"
  "templateShortKey Macos
     (Some [''arch'' \<mapsto> ''x64'', ''bin'' \<mapsto> ''foo'', ''sha'' \<mapsto> ''123456'',
            ''version'' \<mapsto> ''1.2.3''])
   = Inr ''foo-v1.2.3-123456-x64.pkg''"
  "templateShortKey Win32
     (Some [''arch'' \<mapsto> ''x64'', ''bin'' \<mapsto> ''foo'', ''sha'' \<mapsto> ''123456'',
            ''version'' \<mapsto> ''1.2.3''])
   = Inr ''foo-v1.2.3-123456-x64.exe''"
  "templateShortKey Manifest
     (Some [''arch'' \<mapsto> ''x64'', ''bin'' \<mapsto> ''foo'', ''platform'' \<mapsto> ''linux'',
            ''sha'' \<mapsto> ''123456'', ''version'' \<mapsto> ''1.2.3''])
   = Inr ''foo-v1.2.3-123456-linux-x64-buildmanifest''"
  "templateShortKey Unversioned
     (Some [''arch'' \<mapsto> ''x64'', ''bin'' \<mapsto> ''foo'', ''ext'' \<mapsto> ''.tar.gz'',
            ''platform'' \<mapsto> ''linux''])
   = Inr ''foo-linux-x64.tar.gz''"
  "templateShortKey Versioned
     (Some [''arch'' \<mapsto> ''x64'', ''bin'' \<mapsto> ''foo'', ''ext'' \<mapsto> ''.tar.gz'',
            ''platform'' \<mapsto> ''linux'', ''sha'' \<mapsto> ''123456'', ''version'' \<mapsto> ''1.2.3''])
   = Inr ''foo-v1.2.3-123456-linux-x64.tar.gz''"
  "templateShortKey BaseDir (Some [''bin'' \<mapsto> ''foo'']) = Inr ''foo''"
  by (simp_all add: templateShortKey_tokens)

lemma test_directories:
  "commitAWSDir ''1.2.3'' ''abc1234'' \<lparr>acl = None, bucket = None, folder = Some ''''\<rparr>
   = ''versions/1.2.3/abc1234''"
  "commitAWSDir ''1.2.3'' ''abc1234'' \<lparr>acl = None, bucket = None, folder = Some ''my-cli''\<rparr>
   = ''my-cli/versions/1.2.3/abc1234''"
  "commitAWSDir ''1.2.3'' ''abc1234'' \<lparr>acl = None, bucket = None, folder = Some ''my-cli/''\<rparr>
   = ''my-cli/versions/1.2.3/abc1234''"
  "channelAWSDir ''stable'' \<lparr>acl = None, bucket = None, folder = Some ''''\<rparr>
   = ''channels/stable''"
  "channelAWSDir ''stable'' \<lparr>acl = None, bucket = None, folder = Some ''my-cli''\<rparr>
   = ''my-cli/channels/stable''"
  "channelAWSDir ''stable'' \<lparr>acl = None, bucket = None, folder = Some ''my-cli/''\<rparr>
   = ''my-cli/channels/stable''"
  by (simp_all add: key_defs)

lemma test_s3Keys_default:
  "versioned (test_config False) test_s3Config defaultOpts TarGz linux_x64
   = Inr ''mycli-v1.2.3-abc1234-linux-x64.tar.gz''"
  "versioned (test_config False) test_s3Config defaultOpts TarXz linux_x64
   = Inr ''mycli-v1.2.3-abc1234-linux-x64.tar.xz''"
  "manifest (test_config False) test_s3Config defaultOpts linux_x64
   = Inr ''mycli-v1.2.3-abc1234-linux-x64-buildmanifest''"
  "cloudKey (test_config False) test_s3Config defaultOpts ''some-file.tar.gz''
   = ''versions/1.2.3/abc1234/some-file.tar.gz''"
  "cloudKey (test_config False) (test_s3Config\<lparr>folder := Some ''my-cli''\<rparr>) defaultOpts
     ''some-file.tar.gz''
   = ''my-cli/versions/1.2.3/abc1234/some-file.tar.gz''"
  "channelTarball (test_config False) test_s3Config defaultOpts TarGz linux_x64 ''stable''
   = Inr ''channels/stable/mycli-linux-x64.tar.gz''"
  "channelTarball (test_config False) test_s3Config defaultOpts TarXz linux_x64 ''beta''
   = Inr ''channels/beta/mycli-linux-x64.tar.xz''"
  "channelTarball (test_config False) (test_s3Config\<lparr>folder := Some ''my-cli''\<rparr>) defaultOpts
     TarGz linux_x64 ''stable''
   = Inr ''my-cli/channels/stable/mycli-linux-x64.tar.gz''"
  "channelManifest (test_config False) test_s3Config defaultOpts linux_x64 ''stable''
   = Inr ''channels/stable/mycli-linux-x64-buildmanifest''"
  "indexFilename (test_config False) test_s3Config defaultOpts TarGz linux_x64 ''stable''
   = Inr ''mycli-linux-x64.tar.gz''"
  "indexFilename (test_config False) test_s3Config defaultOpts TarXz linux_x64 ''stable''
   = Inr ''mycli-linux-x64.tar.xz''"
  "versioned (test_config False) test_s3Config defaultOpts TarGz darwin_arm64
   = Inr ''mycli-v1.2.3-abc1234-darwin-arm64.tar.gz''"
  "manifest (test_config False) test_s3Config defaultOpts darwin_arm64
   = Inr ''mycli-v1.2.3-abc1234-darwin-arm64-buildmanifest''"
  "channelTarball (test_config False) test_s3Config defaultOpts TarGz darwin_arm64 ''stable''
   = Inr ''channels/stable/mycli-darwin-arm64.tar.gz''"
  by (simp_all add: key_defs test_defs)

lemma test_s3Keys_custom:
  "versioned (test_config True) test_s3Config defaultOpts TarGz linux_x64
   = Inr ''custom/versioned/linux-x64.tar.gz''"
  "versioned (test_config True) test_s3Config defaultOpts TarXz linux_x64
   = Inr ''custom/versioned/linux-x64.tar.xz''"
  "manifest (test_config True) test_s3Config defaultOpts linux_x64
   = Inr ''custom/manifest/linux-x64''"
  "cloudKey (test_config True) test_s3Config defaultOpts ''any/path/file.tar.gz''
   = ''any/path/file.tar.gz''"
  "channelTarball (test_config True) test_s3Config defaultOpts TarGz linux_x64 ''stable''
   = Inr ''custom/unversioned/linux-x64.tar.gz/stable''"
  "channelManifest (test_config True) test_s3Config defaultOpts linux_x64 ''stable''
   = Inr ''custom/manifest/linux-x64/stable''"
  "indexFilename (test_config True) test_s3Config defaultOpts TarGz linux_x64 ''stable''
   = channelTarball (test_config True) test_s3Config defaultOpts TarGz linux_x64 ''stable''"
  by (simp_all add: key_defs test_defs mock_s3Key_def)

lemma templateShortKey_Versioned:
  assumes "d ''bin'' = Some b" "d ''version'' = Some v" "d ''sha'' = Some s"
    "d ''platform'' = Some p" "d ''arch'' = Some a" "d ''ext'' = Some e"
  shows "templateShortKey Versioned (Some d)
         = Inr (b @ ''-v'' @ v @ ''-'' @ s @ ''-'' @ p @ ''-'' @ a @ e)"
  using assms by (simp add: templateShortKey_tokens)

lemma templateShortKey_Unversioned:
  assumes "d ''bin'' = Some b" "d ''platform'' = Some p" "d ''arch'' = Some a" "d ''ext'' = Some e"
  shows "templateShortKey Unversioned (Some d) = Inr (b @ ''-'' @ p @ ''-'' @ a @ e)"
  using assms by (simp add: templateShortKey_tokens)

lemma templateShortKey_Manifest:
  assumes "d ''bin'' = Some b" "d ''version'' = Some v" "d ''sha'' = Some s"
    "d ''platform'' = Some p" "d ''arch'' = Some a"
  shows "templateShortKey Manifest (Some d)
         = Inr (b @ ''-v'' @ v @ ''-'' @ s @ ''-'' @ p @ ''-'' @ a @ ''-buildmanifest'')"
  using assms by (simp add: templateShortKey_tokens)

lemma templateShortKey_Deb:
  assumes "d ''bin'' = Some b" "d ''versionShaRevision'' = Some r" "d ''arch'' = Some a"
  shows "templateShortKey Deb (Some d) = Inr (b @ ''_'' @ r @ ''_'' @ a @ ''.deb'')"
  using assms by (simp add: templateShortKey_tokens)

lemma versioned_default:
  "\<not> hasCustom c \<Longrightarrow>
   versioned c s3 opts ext t
   = Inr (bin opts @ ''-v'' @ version opts @ ''-'' @ sha opts @ ''-'' @ platform t @ ''-''
          @ arch t @ ext_str ext)"
  by (simp add: versioned_def templateShortKey_Versioned options_obj_def target_obj_def)

lemma manifest_default:
  "\<not> hasCustom c \<Longrightarrow>
   manifest c s3 opts t
   = Inr (bin opts @ ''-v'' @ version opts @ ''-'' @ sha opts @ ''-'' @ platform t @ ''-''
          @ arch t @ ''-buildmanifest'')"
  by (simp add: manifest_def templateShortKey_Manifest options_obj_def target_obj_def)

lemma indexFilename_default:
  "\<not> hasCustom c \<Longrightarrow>
   indexFilename c s3 opts ext t ch
   = Inr (bin opts @ ''-'' @ platform t @ ''-'' @ arch t @ ext_str ext)"
  by (simp add: indexFilename_def templateShortKey_Unversioned options_obj_def target_obj_def)

lemma channelTarball_default:
  "\<not> hasCustom c \<Longrightarrow>
   channelTarball c s3 opts ext t ch
   = Inr (channelAWSDir ch s3 @ ''/'' @ bin opts @ ''-'' @ platform t @ ''-'' @ arch t
          @ ext_str ext)"
  by (simp add: channelTarball_def templateShortKey_Unversioned options_obj_def target_obj_def)

lemma versioned_custom:
  "hasCustom c \<Longrightarrow>
   versioned c s3 opts ext t = Inr (s3Key c ''versioned'' (Some (ext_str ext)) (target_obj t))"
  by (simp add: versioned_def)

lemma manifest_custom:
  "hasCustom c \<Longrightarrow> manifest c s3 opts t = Inr (s3Key c ''manifest'' None (target_obj t))"
  by (simp add: manifest_def)

lemma versioned_total: "\<exists>k. versioned c s3 opts ext t = Inr k"
  by (cases "hasCustom c") (simp_all add: versioned_default versioned_custom)

lemma manifest_total: "\<exists>k. manifest c s3 opts t = Inr k"
  by (cases "hasCustom c") (simp_all add: manifest_default manifest_custom)

lemma replace_at:
  assumes "indexOf (b @ pat @ rest) pat = Some (length b)"
  shows "replace (b @ pat @ rest) pat [] = b @ rest"
  using assms by (simp add: replace_def)

lemma split_not_Nil: "split c s \<noteq> []"
  by (induction s) (auto split: list.splits)

lemma split_head: "(case split c s of [] \<Rightarrow> d | x # _ \<Rightarrow> x) = takeWhile (\<lambda>x. x \<noteq> c) s"
  by (induction s) (auto split: list.splits simp: split_not_Nil)

lemma debVersion_eq:
  "debVersion bc
   = takeWhile (\<lambda>x. x \<noteq> CHR ''-'') (config_version (config bc)) @ ''.'' @ gitSha bc @ ''-1''"
  by (simp add: debVersion_def split_head)

lemma basename_append:
  assumes "CHR ''/'' \<notin> set n" "n \<noteq> []"
  shows "basename (d @ ''/'' @ n) = n"
proof -
  have hd: "hd (rev n) \<noteq> CHR ''/''"
    using assms by (metis hd_rev last_in_set)
  have "dropWhile (\<lambda>c. c = CHR ''/'') (rev n @ CHR ''/'' # rev d) = rev n @ CHR ''/'' # rev d"
    using assms hd by (cases "rev n") auto
  moreover have "takeWhile (\<lambda>c. c \<noteq> CHR ''/'') (rev n @ CHR ''/'' # rev d) = rev n"
    using assms by (subst takeWhile_append2) auto
  ultimately show ?thesis
    by (simp add: basename_def)
qed

text \<open>The first occurrence is the templated one, for instance, whenever the binary name
  does not contain \<open>-v\<close>.\<close>

lemma indexOf_after_bin:
  assumes "\<not> str_includes b ''-v''"
  shows "indexOf (b @ (''-v'' @ x) @ rest) (''-v'' @ x) = Some (length b)"
  using assms
proof (induction b)
  case Nil
  then show ?case by simp
next
  case (Cons c cs)
  from Cons.prems have no: "\<not> prefix ''-v'' (c # cs)" and tl: "\<not> str_includes cs ''-v''"
    by (auto simp add: str_includes_def split: if_splits)
  have "\<not> prefix (''-v'' @ x) (c # cs @ (''-v'' @ x) @ rest)"
    using no by (cases cs) auto
  with Cons.IH [OF tl] show ?case
    by simp
qed

text \<open>
  C1, amended. The unversioned short key is the versioned short key with the first
  occurrence of \<open>-v<version>-<sha>\<close> removed, whenever that first occurrence is the
  templated one, directly after the binary name. (\<open>replace\<close> removes the first
  occurrence only; a binary name that itself contains the substring moves it.)
\<close>
theorem unversioned_is_versioned_stripped:
  assumes "templateShortKey Versioned
             (Some [''bin'' \<mapsto> b, ''version'' \<mapsto> v, ''sha'' \<mapsto> s, ''platform'' \<mapsto> p,
                    ''arch'' \<mapsto> a, ''ext'' \<mapsto> e]) = Inr vk"
    and "indexOf vk (''-v'' @ v @ ''-'' @ s) = Some (length b)"
  shows "templateShortKey Unversioned
           (Some [''bin'' \<mapsto> b, ''platform'' \<mapsto> p, ''arch'' \<mapsto> a, ''ext'' \<mapsto> e])
         = Inr (replace vk (''-v'' @ v @ ''-'' @ s) [])"
proof -
  let ?pat = "''-v'' @ v @ ''-'' @ s"
  let ?rest = "''-'' @ p @ ''-'' @ a @ e"
  have vk: "vk = b @ ?pat @ ?rest"
    using assms(1) by (simp add: templateShortKey_Versioned)
  have "replace (b @ ?pat @ ?rest) ?pat [] = b @ ?rest"
    using assms(2) unfolding vk by (rule replace_at)
  then show ?thesis
    unfolding vk by (simp add: templateShortKey_Unversioned)
qed

theorem unversioned_is_versioned_stripped_witness:
  "templateShortKey Versioned
     (Some [''bin'' \<mapsto> ''mycli'', ''version'' \<mapsto> ''1.2.3'', ''sha'' \<mapsto> ''abc1234'',
            ''platform'' \<mapsto> ''linux'', ''arch'' \<mapsto> ''x64'', ''ext'' \<mapsto> ''.tar.gz''])
   = Inr ''mycli-v1.2.3-abc1234-linux-x64.tar.gz''
   \<and> indexOf ''mycli-v1.2.3-abc1234-linux-x64.tar.gz'' (''-v'' @ ''1.2.3'' @ ''-'' @ ''abc1234'')
     = Some (length ''mycli'')
   \<and> templateShortKey Unversioned
       (Some [''bin'' \<mapsto> ''mycli'', ''platform'' \<mapsto> ''linux'', ''arch'' \<mapsto> ''x64'',
              ''ext'' \<mapsto> ''.tar.gz''])
     = Inr (replace ''mycli-v1.2.3-abc1234-linux-x64.tar.gz''
              (''-v'' @ ''1.2.3'' @ ''-'' @ ''abc1234'') [])
   \<and> replace ''mycli-v1.2.3-abc1234-linux-x64.tar.gz'' (''-v'' @ ''1.2.3'' @ ''-'' @ ''abc1234'') []
     = ''mycli-linux-x64.tar.gz''"
proof -
  have k: "templateShortKey Versioned
     (Some [''bin'' \<mapsto> ''mycli'', ''version'' \<mapsto> ''1.2.3'', ''sha'' \<mapsto> ''abc1234'',
            ''platform'' \<mapsto> ''linux'', ''arch'' \<mapsto> ''x64'', ''ext'' \<mapsto> ''.tar.gz''])
   = Inr ''mycli-v1.2.3-abc1234-linux-x64.tar.gz''"
    by (simp add: templateShortKey_tokens)
  have i: "indexOf ''mycli-v1.2.3-abc1234-linux-x64.tar.gz'' (''-v'' @ ''1.2.3'' @ ''-'' @ ''abc1234'')
     = Some (length ''mycli'')"
    by simp
  have r: "replace ''mycli-v1.2.3-abc1234-linux-x64.tar.gz'' (''-v'' @ ''1.2.3'' @ ''-'' @ ''abc1234'') []
     = ''mycli-linux-x64.tar.gz''"
    by (simp add: replace_def)
  from unversioned_is_versioned_stripped [OF k i] k i r show ?thesis
    by simp
qed

theorem unversioned_is_versioned_stripped_counterexample:
  "templateShortKey Versioned
     (Some [''bin'' \<mapsto> ''cli-v1.2.3-abc1234x'', ''version'' \<mapsto> ''1.2.3'', ''sha'' \<mapsto> ''abc1234'',
            ''platform'' \<mapsto> ''linux'', ''arch'' \<mapsto> ''x64'', ''ext'' \<mapsto> ''.tar.gz''])
   = Inr ''cli-v1.2.3-abc1234x-v1.2.3-abc1234-linux-x64.tar.gz''
   \<and> replace ''cli-v1.2.3-abc1234x-v1.2.3-abc1234-linux-x64.tar.gz''
        (''-v'' @ ''1.2.3'' @ ''-'' @ ''abc1234'') []
     = ''clix-v1.2.3-abc1234-linux-x64.tar.gz''
   \<and> templateShortKey Unversioned
        (Some [''bin'' \<mapsto> ''cli-v1.2.3-abc1234x'', ''platform'' \<mapsto> ''linux'', ''arch'' \<mapsto> ''x64'',
               ''ext'' \<mapsto> ''.tar.gz''])
     = Inr ''cli-v1.2.3-abc1234x-linux-x64.tar.gz''
   \<and> ''cli-v1.2.3-abc1234x-linux-x64.tar.gz'' \<noteq> ''clix-v1.2.3-abc1234-linux-x64.tar.gz''"
  by (simp add: templateShortKey_tokens replace_def)

text \<open>
  C6. \<open>debArch\<close> maps x64 to amd64, x86 to i386, arm to armel and arm64 to arm64, is
  injective on these four, and raises "invalid arch" exactly for every other value.
\<close>
theorem debArch_table:
  "debArch ''x64'' = Inr ''amd64'' \<and> debArch ''x86'' = Inr ''i386''
   \<and> debArch ''arm'' = Inr ''armel'' \<and> debArch ''arm64'' = Inr ''arm64''
   \<and> inj_on debArch {''x64'', ''x86'', ''arm'', ''arm64''}
   \<and> (\<forall>a. (a \<notin> {''x64'', ''x86'', ''arm'', ''arm64''})
           = (debArch a = Inl (InvalidArch (''invalid arch: '' @ a))))
   \<and> (\<forall>a. (a \<notin> {''x64'', ''x86'', ''arm'', ''arm64''}) = (\<exists>e. debArch a = Inl e))"
  by (auto simp add: debArch_def inj_on_def)

lemma channelManifest_custom:
  "hasCustom c \<Longrightarrow>
   channelManifest c s3 opts t ch
   = Inr (s3Key c ''manifest'' None (target_obj t ++ [''channel'' \<mapsto> ch]))"
  by (simp add: channelManifest_def)

lemma channelTarball_custom:
  "hasCustom c \<Longrightarrow>
   channelTarball c s3 opts ext t ch
   = Inr (s3Key c ''unversioned'' (Some (ext_str ext)) (target_obj t ++ [''channel'' \<mapsto> ch]))"
  by (simp add: channelTarball_def)

lemma indexFilename_custom:
  "hasCustom c \<Longrightarrow>
   indexFilename c s3 opts ext t ch
   = Inr (s3Key c ''unversioned'' (Some (ext_str ext)) (target_obj t ++ [''channel'' \<mapsto> ch]))"
  by (simp add: indexFilename_def)

lemma target_eta: "\<lparr>arch = arch t, platform = platform t\<rparr> = (t :: TargetOptions)"
  by simp

text \<open>
  C4, amended. For a target whose architecture \<open>debArch\<close> maps to \<open>d\<close>, the Debian short
  key rendered for promotion is \<open><bin>_<rev>_<d>.deb\<close>, where \<open>rev\<close> is the version
  of the build configuration up to its first hyphen, followed by \<open>.<gitSha>-1\<close>; for a
  version without a hyphen \<open>rev\<close> starts with the full version.
\<close>

theorem deb_short_key:
  assumes "debArch (arch a) = Inr d"
  shows "debKey bc a
         = Inr (config_bin (config bc) @ ''_''
                @ takeWhile (\<lambda>x. x \<noteq> CHR ''-'') (config_version (config bc))
                @ ''.'' @ gitSha bc @ ''-1'' @ ''_'' @ d @ ''.deb'')
       \<and> (CHR ''-'' \<notin> set (config_version (config bc)) \<longrightarrow>
            debKey bc a
            = Inr (config_bin (config bc) @ ''_'' @ config_version (config bc)
                   @ ''.'' @ gitSha bc @ ''-1'' @ ''_'' @ d @ ''.deb''))"
proof -
  have k: "debKey bc a
         = Inr (config_bin (config bc) @ ''_''
                @ takeWhile (\<lambda>x. x \<noteq> CHR ''-'') (config_version (config bc))
                @ ''.'' @ gitSha bc @ ''-1'' @ ''_'' @ d @ ''.deb'')"
    using assms by (simp add: debKey_def templateShortKey_Deb debVersion_eq)
  have "CHR ''-'' \<notin> set v \<Longrightarrow> takeWhile (\<lambda>x. x \<noteq> CHR ''-'') v = v" for v
    by (induction v) auto
  with k show ?thesis by simp
qed

theorem deb_short_key_witness:
  "debArch (arch linux_x64) = Inr ''amd64''
   \<and> CHR ''-'' \<notin> set (config_version (config (test_buildConfig (test_config False) [linux_x64] False)))
   \<and> debKey (test_buildConfig (test_config False) [linux_x64] False) linux_x64
     = Inr ''mycli_1.2.3.abc1234-1_amd64.deb''"
proof -
  have h: "debArch (arch linux_x64) = Inr ''amd64''"
    by (simp add: debArch_def linux_x64_def)
  show ?thesis
    using h deb_short_key [OF h, of "test_buildConfig (test_config False) [linux_x64] False"]
    by (simp add: test_buildConfig_def test_config_def)
qed

theorem deb_short_key_counterexample:
  "debKey (test_buildConfig ((test_config False)\<lparr>config_version := ''1.2.3-beta.1''\<rparr>)
             [linux_x64] False) linux_x64
   = Inr ''mycli_1.2.3.abc1234-1_amd64.deb''
   \<and> ''mycli_1.2.3.abc1234-1_amd64.deb'' \<noteq> ''mycli_1.2.3-beta.1.abc1234-1_amd64.deb''"
  by (simp add: debKey_def debArch_def linux_x64_def templateShortKey_tokens debVersion_def
      test_buildConfig_def test_config_def)

text \<open>
  C3, amended. Without custom templates \<open>channelTarball\<close> is the channel directory, a
  slash and \<open>indexFilename\<close>, so it begins with the channel directory, and its basename
  is \<open>indexFilename\<close> when binary name, platform and architecture contain no slash.
  With custom templates \<open>channelTarball\<close> and \<open>indexFilename\<close> are the same string, the
  result of the hook.
\<close>

theorem channelTarball_indexFilename:
  "(\<not> hasCustom c \<longrightarrow>
      (\<exists>name. indexFilename c s3 opts ext t ch = Inr name
         \<and> channelTarball c s3 opts ext t ch = Inr (channelAWSDir ch s3 @ ''/'' @ name)
         \<and> prefix (channelAWSDir ch s3) (channelAWSDir ch s3 @ ''/'' @ name)
         \<and> (CHR ''/'' \<notin> set (bin opts) \<union> set (platform t) \<union> set (arch t) \<longrightarrow>
              basename (channelAWSDir ch s3 @ ''/'' @ name) = name)))
   \<and> (hasCustom c \<longrightarrow>
        channelTarball c s3 opts ext t ch = indexFilename c s3 opts ext t ch
        \<and> indexFilename c s3 opts ext t ch
          = Inr (s3Key c ''unversioned'' (Some (ext_str ext))
                   (target_obj t ++ [''channel'' \<mapsto> ch])))"
proof (intro conjI impI)
  assume d: "\<not> hasCustom c"
  let ?name = "bin opts @ ''-'' @ platform t @ ''-'' @ arch t @ ext_str ext"
  have slash: "CHR ''/'' \<notin> set (ext_str ext)"
    by (cases ext) simp_all
  have "CHR ''/'' \<notin> set (bin opts) \<union> set (platform t) \<union> set (arch t) \<longrightarrow>
          basename (channelAWSDir ch s3 @ ''/'' @ ?name) = ?name"
  proof
    assume "CHR ''/'' \<notin> set (bin opts) \<union> set (platform t) \<union> set (arch t)"
    with slash have a: "CHR ''/'' \<notin> set ?name"
      by simp
    have b: "?name \<noteq> []"
      by simp
    show "basename (channelAWSDir ch s3 @ ''/'' @ ?name) = ?name"
      by (rule basename_append [OF a b])
  qed
  then show "\<exists>name. indexFilename c s3 opts ext t ch = Inr name
         \<and> channelTarball c s3 opts ext t ch = Inr (channelAWSDir ch s3 @ ''/'' @ name)
         \<and> prefix (channelAWSDir ch s3) (channelAWSDir ch s3 @ ''/'' @ name)
         \<and> (CHR ''/'' \<notin> set (bin opts) \<union> set (platform t) \<union> set (arch t) \<longrightarrow>
              basename (channelAWSDir ch s3 @ ''/'' @ name) = name)"
    using d by (intro exI [of _ ?name]) (simp add: indexFilename_default channelTarball_default)
next
  assume "hasCustom c"
  then show "channelTarball c s3 opts ext t ch = indexFilename c s3 opts ext t ch"
    by (simp add: channelTarball_custom indexFilename_custom)
next
  assume "hasCustom c"
  then show "indexFilename c s3 opts ext t ch
          = Inr (s3Key c ''unversioned'' (Some (ext_str ext))
                   (target_obj t ++ [''channel'' \<mapsto> ch]))"
    by (rule indexFilename_custom)
qed

theorem channelTarball_indexFilename_witness:
  "\<not> hasCustom (test_config False)
   \<and> CHR ''/'' \<notin> set (bin defaultOpts) \<union> set (platform linux_x64) \<union> set (arch linux_x64)
   \<and> indexFilename (test_config False) test_s3Config defaultOpts TarGz linux_x64 ''stable''
     = Inr ''mycli-linux-x64.tar.gz''
   \<and> channelTarball (test_config False) test_s3Config defaultOpts TarGz linux_x64 ''stable''
     = Inr ''channels/stable/mycli-linux-x64.tar.gz''
   \<and> channelAWSDir ''stable'' test_s3Config = ''channels/stable''
   \<and> basename ''channels/stable/mycli-linux-x64.tar.gz'' = ''mycli-linux-x64.tar.gz''
   \<and> hasCustom (test_config True)
   \<and> channelTarball (test_config True) test_s3Config defaultOpts TarGz linux_x64 ''stable''
     = indexFilename (test_config True) test_s3Config defaultOpts TarGz linux_x64 ''stable''"
proof -
  have n: "\<not> hasCustom (test_config False)"
    by (simp add: hasCustom_def test_config_def)
  have y: "hasCustom (test_config True)"
    by (simp add: hasCustom_def test_config_def)
  have i: "indexFilename (test_config False) test_s3Config defaultOpts TarGz linux_x64 ''stable''
     = Inr ''mycli-linux-x64.tar.gz''"
    by (simp add: indexFilename_default n defaultOpts_def linux_x64_def)
  have d: "channelAWSDir ''stable'' test_s3Config = ''channels/stable''"
    by (simp add: channelAWSDir_def test_s3Config_def s3SubDir_def posix_join_def normalize_def
        normalizeString_def normalize_step_def)
  have s: "CHR ''/'' \<notin> set (bin defaultOpts) \<union> set (platform linux_x64) \<union> set (arch linux_x64)"
    by (simp add: defaultOpts_def linux_x64_def)
  from channelTarball_indexFilename
         [of "test_config False" test_s3Config defaultOpts TarGz linux_x64 "''stable''"]
       channelTarball_indexFilename
         [of "test_config True" test_s3Config defaultOpts TarGz linux_x64 "''stable''"]
       n y i d s
  show ?thesis by auto
qed

theorem channelTarball_indexFilename_counterexample:
  "hasCustom (test_config True)
   \<and> channelTarball (test_config True) test_s3Config defaultOpts TarGz linux_x64 ''stable''
     = Inr ''custom/unversioned/linux-x64.tar.gz/stable''
   \<and> indexFilename (test_config True) test_s3Config defaultOpts TarGz linux_x64 ''stable''
     = Inr ''custom/unversioned/linux-x64.tar.gz/stable''
   \<and> channelAWSDir ''stable'' test_s3Config = ''channels/stable''
   \<and> \<not> prefix ''channels/stable'' ''custom/unversioned/linux-x64.tar.gz/stable''
   \<and> basename ''custom/unversioned/linux-x64.tar.gz/stable'' = ''stable''
   \<and> ''stable'' \<noteq> ''custom/unversioned/linux-x64.tar.gz/stable''
   \<and> \<not> hasCustom (test_config False)
   \<and> channelTarball (test_config False) test_s3Config
        \<lparr>bin = ''my/cli'', sha = ''abc1234'', version = ''1.2.3''\<rparr> TarGz linux_x64 ''stable''
     = Inr ''channels/stable/my/cli-linux-x64.tar.gz''
   \<and> indexFilename (test_config False) test_s3Config
        \<lparr>bin = ''my/cli'', sha = ''abc1234'', version = ''1.2.3''\<rparr> TarGz linux_x64 ''stable''
     = Inr ''my/cli-linux-x64.tar.gz''
   \<and> basename ''channels/stable/my/cli-linux-x64.tar.gz'' = ''cli-linux-x64.tar.gz''
   \<and> ''cli-linux-x64.tar.gz'' \<noteq> ''my/cli-linux-x64.tar.gz''"
  by (simp add: hasCustom_def test_config_def channelTarball_def indexFilename_def
      mock_s3Key_def target_obj_def options_obj_def templateShortKey_tokens linux_x64_def
      basename_def channelAWSDir_def test_s3Config_def s3SubDir_def posix_join_def
      normalize_def normalizeString_def normalize_step_def)

text \<open>
  C2, amended. With custom templates configured, \<open>versioned\<close>, \<open>manifest\<close>,
  \<open>channelTarball\<close>, \<open>indexFilename\<close> and \<open>channelManifest\<close> return the result of the
  \<open>s3Key\<close> hook unchanged and \<open>cloudKey\<close> returns its argument; so the keys under which
  the upload stores tarballs and manifests, and the keys to which the promotion copies
  tarballs and manifests, are results of the hook.
\<close>

theorem custom_templates_delegate:
  assumes "hasCustom (config bc)"
  shows "versioned (config bc) s3 opts ext t
         = Inr (s3Key (config bc) ''versioned'' (Some (ext_str ext)) (target_obj t))
   \<and> manifest (config bc) s3 opts t = Inr (s3Key (config bc) ''manifest'' None (target_obj t))
   \<and> channelTarball (config bc) s3 opts ext t ch
     = Inr (s3Key (config bc) ''unversioned'' (Some (ext_str ext))
              (target_obj t ++ [''channel'' \<mapsto> ch]))
   \<and> indexFilename (config bc) s3 opts ext t ch
     = Inr (s3Key (config bc) ''unversioned'' (Some (ext_str ext))
              (target_obj t ++ [''channel'' \<mapsto> ch]))
   \<and> channelManifest (config bc) s3 opts t ch
     = Inr (s3Key (config bc) ''manifest'' None (target_obj t ++ [''channel'' \<mapsto> ch]))
   \<and> cloudKey (config bc) s3 opts k = k
   \<and> [put_Key p. UploadFile l p d \<leftarrow> fst (releaseTarballs w dry bc t ext)]
     = [s3Key (config bc) ''versioned'' (Some (ext_str ext)) (target_obj t)]
   \<and> (existsSync w (dist bc (s3Key (config bc) ''manifest'' None (target_obj t))) \<longrightarrow>
        [put_Key p. UploadFile l p d \<leftarrow> fst (maybeUploadManifest w dry bc t)]
        = [s3Key (config bc) ''manifest'' None (target_obj t)])
   \<and> [Key p. CopyObject p co \<leftarrow> fst (promoteManifest w flags bc bkt t)]
     = [s3Key (config bc) ''manifest'' None (target_obj t ++ [''channel'' \<mapsto> flag_channel flags])]
   \<and> [Key p. CopyObject p co \<leftarrow> fst (promoteTarballs w flags bc bkt ext t)]
     = [s3Key (config bc) ''unversioned'' (Some (ext_str ext))
          (target_obj t ++ [''channel'' \<mapsto> flag_channel flags])]"
  using assms
  by (simp add: versioned_custom manifest_custom channelTarball_custom indexFilename_custom
      channelManifest_custom cloudKey_def releaseTarballs_def maybeUploadManifest_def
      promoteManifest_def promoteTarballs_def with_key_def uploadFile_def copyObject_def
      appendToIndex_def promise_all_def awsDefaults_def Let_def target_eta)

theorem custom_templates_delegate_witness:
  "hasCustom (config (test_buildConfig (test_config True) [linux_x64] False))
   \<and> versioned (test_config True) test_s3Config defaultOpts TarGz linux_x64
     = Inr ''custom/versioned/linux-x64.tar.gz''
   \<and> manifest (test_config True) test_s3Config defaultOpts linux_x64
     = Inr ''custom/manifest/linux-x64''
   \<and> channelTarball (test_config True) test_s3Config defaultOpts TarGz linux_x64 ''stable''
     = Inr ''custom/unversioned/linux-x64.tar.gz/stable''
   \<and> channelManifest (test_config True) test_s3Config defaultOpts linux_x64 ''stable''
     = Inr ''custom/manifest/linux-x64/stable''
   \<and> cloudKey (test_config True) test_s3Config defaultOpts ''any/path/file.tar.gz''
     = ''any/path/file.tar.gz''"
proof -
  have h: "hasCustom (config (test_buildConfig (test_config True) [linux_x64] False))"
    by (simp add: hasCustom_def test_buildConfig_def test_config_def)
  have c: "config (test_buildConfig (test_config True) [linux_x64] False) = test_config True"
    by (simp add: test_buildConfig_def)
  have m: "s3Key (test_config True) = mock_s3Key"
    by (simp add: test_config_def)
  show ?thesis
    using h custom_templates_delegate [OF h, of test_s3Config defaultOpts TarGz linux_x64
        "''stable''" "''any/path/file.tar.gz''"]
    unfolding c m
    by (simp add: mock_s3Key_def target_obj_def linux_x64_def)
qed

theorem custom_templates_delegate_counterexample:
  "hasCustom (config (test_buildConfig (test_config True)
                        [darwin_arm64, \<lparr>arch = ''x64'', platform = ''win32''\<rparr>, linux_x64] False))
   \<and> fst (promoteMacInstallers (test_world []) test_flags
            (test_buildConfig (test_config True)
               [darwin_arm64, \<lparr>arch = ''x64'', platform = ''win32''\<rparr>, linux_x64] False)
            ''my-bucket'')
     = [CopyObject
          \<lparr>ACL = ''public-read'', Bucket = ''my-bucket'', CacheControl = ''max-age=86400'',
           CopySource = ''my-bucket/versions/1.2.3/abc1234/mycli-v1.2.3-abc1234-arm64.pkg'',
           Key = ''channels/stable/mycli-arm64.pkg'', MetadataDirective = ''REPLACE''\<rparr>
          \<lparr>dryRun = False, ignoreMissing = False, namespace = ''mycli-arm64.pkg''\<rparr>]
   \<and> templateShortKey Macos
        (Some [''arch'' \<mapsto> ''arm64'', ''bin'' \<mapsto> ''mycli'', ''sha'' \<mapsto> ''abc1234'',
               ''version'' \<mapsto> ''1.2.3''])
     = Inr ''mycli-v1.2.3-abc1234-arm64.pkg''
   \<and> s3Key (test_config True) ''macos'' None
        [''arch'' \<mapsto> ''arm64'', ''bin'' \<mapsto> ''mycli'', ''sha'' \<mapsto> ''abc1234'',
         ''version'' \<mapsto> ''1.2.3'']
     = ''custom/macos/noplatform-arm64''
   \<and> fst (promoteWindowsInstallers (test_world []) test_flags
            (test_buildConfig (test_config True)
               [darwin_arm64, \<lparr>arch = ''x64'', platform = ''win32''\<rparr>, linux_x64] False)
            ''my-bucket'')
     = [CopyObject
          \<lparr>ACL = ''public-read'', Bucket = ''my-bucket'', CacheControl = ''max-age=86400'',
           CopySource = ''my-bucket/versions/1.2.3/abc1234/mycli-v1.2.3-abc1234-x64.exe'',
           Key = ''channels/stable/mycli-x64.exe'', MetadataDirective = ''REPLACE''\<rparr>
          \<lparr>dryRun = False, ignoreMissing = False, namespace = ''mycli-x64.exe''\<rparr>]
   \<and> promoteWindowsInstallers_resumed (test_world []) test_flags
        (test_buildConfig (test_config True)
           [darwin_arm64, \<lparr>arch = ''x64'', platform = ''win32''\<rparr>, linux_x64] False)
        ''my-bucket''
     = [ActionStop ''successfully'']
   \<and> take 2 (fst (promoteDebianAptPackages (test_world []) test_flags
            (test_buildConfig (test_config True)
               [darwin_arm64, \<lparr>arch = ''x64'', platform = ''win32''\<rparr>, linux_x64] False)
            ''my-bucket''))
     = [CopyObject
          \<lparr>ACL = ''public-read'', Bucket = ''my-bucket'', CacheControl = ''max-age=86400'',
           CopySource = ''my-bucket/versions/1.2.3/abc1234/apt/mycli_1.2.3.abc1234-1_amd64.deb'',
           Key = ''channels/stable/apt/mycli_1.2.3.abc1234-1_amd64.deb'',
           MetadataDirective = ''REPLACE''\<rparr>
          \<lparr>dryRun = False, ignoreMissing = False,
           namespace = ''channels/stable/apt/mycli_1.2.3.abc1234-1_amd64.deb''\<rparr>,
        CopyObject
          \<lparr>ACL = ''public-read'', Bucket = ''my-bucket'', CacheControl = ''max-age=86400'',
           CopySource = ''my-bucket/versions/1.2.3/abc1234/apt/mycli_1.2.3.abc1234-1_amd64.deb'',
           Key = ''channels/stable/apt/./mycli_1.2.3.abc1234-1_amd64.deb'',
           MetadataDirective = ''REPLACE''\<rparr>
          \<lparr>dryRun = False, ignoreMissing = False,
           namespace = ''channels/stable/apt/./mycli_1.2.3.abc1234-1_amd64.deb''\<rparr>]"
  by (simp add: promote_defs key_defs test_defs mock_s3Key_def)

section \<open>Properties of the two commands\<close>

lemma fail_early_missing:
  assumes "t \<in> set ts"
    and "versioned (config bc) (s3Config bc) (upload_options bc) TarGz t = Inr k"
    and "\<not> existsSync w (dist bc k)"
  shows "\<exists>t' k'. t' \<in> set ts
           \<and> versioned (config bc) (s3Config bc) (upload_options bc) TarGz t' = Inr k'
           \<and> \<not> existsSync w (dist bc k')
           \<and> fail_early w bc ts
             = Some (CLIError
                 (''Cannot find a tarball '' @ dist bc k' @ '' for '' @ platform t' @ ''-''
                    @ arch t')
                 [''Run '' @ [CHR 0x22] @ ''oclif pack --target '' @ platform t' @ ''-''
                    @ arch t' @ [CHR 0x22] @ '' before uploading''])"
  using assms
proof (induction ts)
  case Nil
  then show ?case by simp
next
  case (Cons x xs)
  obtain kx where kx: "versioned (config bc) (s3Config bc) (upload_options bc) TarGz x = Inr kx"
    using versioned_total by blast
  show ?case
  proof (cases "existsSync w (dist bc kx)")
    case False
    with kx show ?thesis
      by (intro exI [of _ x] exI [of _ kx]) (simp add: target_eta)
  next
    case True
    with kx Cons.prems have "t \<in> set xs"
      by auto
    from Cons.IH [OF this Cons.prems(2,3)] obtain t' k' where
      "t' \<in> set xs"
      "versioned (config bc) (s3Config bc) (upload_options bc) TarGz t' = Inr k'"
      "\<not> existsSync w (dist bc k')"
      "fail_early w bc xs
             = Some (CLIError
                 (''Cannot find a tarball '' @ dist bc k' @ '' for '' @ platform t' @ ''-''
                    @ arch t')
                 [''Run '' @ [CHR 0x22] @ ''oclif pack --target '' @ platform t' @ ''-''
                    @ arch t' @ [CHR 0x22] @ '' before uploading''])"
      by blast
    with kx True show ?thesis
      by (intro exI [of _ t'] exI [of _ k']) (simp add: target_eta)
  qed
qed

lemma fail_early_present:
  assumes "\<forall>t\<in>set ts. \<forall>k. versioned (config bc) (s3Config bc) (upload_options bc) TarGz t = Inr k
              \<longrightarrow> existsSync w (dist bc k)"
  shows "fail_early w bc ts = None"
  using assms
proof (induction ts)
  case Nil
  then show ?case by simp
next
  case (Cons x xs)
  obtain kx where kx: "versioned (config bc) (s3Config bc) (upload_options bc) TarGz x = Inr kx"
    using versioned_total by blast
  with Cons show ?case
    by (simp add: target_eta)
qed

lemma promise_all_Nil: "promise_all [] = ([], [])"
  by (simp add: promise_all_def)

lemma promise_all_Cons:
  "promise_all (t # ts) = (fst t @ fst (promise_all ts), snd t @ snd (promise_all ts))"
  by (simp add: promise_all_def)

lemma promise_all_append:
  "promise_all (ts @ us)
   = (fst (promise_all ts) @ fst (promise_all us), snd (promise_all ts) @ snd (promise_all us))"
  by (simp add: promise_all_def)

lemma set_fst_promise_all: "set (fst (promise_all ts)) = (\<Union>t\<in>set ts. set (fst t))"
  by (simp add: promise_all_def)

lemma promise_all_rejections:
  assumes "\<And>t. t \<in> set ts \<Longrightarrow> snd t = concat (map f (fst t))"
  shows "snd (promise_all ts) = concat (map f (fst (promise_all ts)))"
  using assms by (induction ts) (simp_all add: promise_all_Nil promise_all_Cons)

lemma releaseTarballs_rejections:
  "snd (releaseTarballs w dry bc t ext)
   = concat (map (rejections w) (fst (releaseTarballs w dry bc t ext)))"
proof -
  obtain k where "versioned (config bc) (s3Config bc) (upload_options bc) ext t = Inr k"
    using versioned_total by blast
  then show ?thesis
    by (simp add: releaseTarballs_def with_key_def uploadFile_def rejections_def)
qed

lemma maybeUploadManifest_rejections:
  "snd (maybeUploadManifest w dry bc t)
   = concat (map (rejections w) (fst (maybeUploadManifest w dry bc t)))"
proof -
  obtain m where "manifest (config bc) (s3Config bc) (upload_options bc) t = Inr m"
    using manifest_total by blast
  then show ?thesis
    by (simp add: maybeUploadManifest_def with_key_def uploadFile_def rejections_def
        promise_all_def Let_def)
qed

lemma uploadTarball_rejections:
  "snd (uploadTarball w dry bc t) = concat (map (rejections w) (fst (uploadTarball w dry bc t)))"
  unfolding uploadTarball_def Let_def
  by (rule promise_all_rejections)
     (auto simp add: releaseTarballs_rejections maybeUploadManifest_rejections)

lemma UploadTarballs_run_rejections:
  assumes "fail_early w bc (targets bc) = None"
  shows "snd (UploadTarballs_run w dry bc)
         = concat (map (rejections w) (fst (UploadTarballs_run w dry bc)))"
proof -
  let ?uploads = "promise_all (map (uploadTarball w dry bc) (targets bc))"
  have "snd ?uploads = concat (map (rejections w) (fst ?uploads))"
    by (rule promise_all_rejections) (auto simp add: uploadTarball_rejections)
  with assms show ?thesis
    by (simp add: UploadTarballs_run_def Let_def rejections_def)
qed

lemma with_key_events:
  assumes "\<And>k. r = Inr k \<Longrightarrow> \<forall>e\<in>set (fst (f k)). P e"
  shows "\<forall>e\<in>set (fst (with_key r f)). P e"
  using assms by (cases r) (simp_all add: with_key_def)

lemma promise_all_events:
  assumes "\<And>t. t \<in> set ts \<Longrightarrow> \<forall>e\<in>set (fst t). P e"
  shows "\<forall>e\<in>set (fst (promise_all ts)). P e"
  using assms by (auto simp add: set_fst_promise_all)

lemma uploadTarball_xz:
  assumes "xz bc"
    and "versioned (config bc) (s3Config bc) (upload_options bc) TarXz t = Inr kx"
  shows "UploadFile (dist bc kx)
           \<lparr>put_ACL = S3Options_ACL (s3Config bc), put_Bucket = bucket (s3Config bc),
            put_CacheControl = ''max-age=604800'', put_ContentType = ''application/gzip'',
            put_Key = cloudKey (config bc) (s3Config bc) (upload_options bc) kx\<rparr> dry
         \<in> set (fst (uploadTarball w dry bc t))"
  using assms
  by (simp add: uploadTarball_def Let_def target_eta set_fst_promise_all releaseTarballs_def
      with_key_def uploadFile_def)

lemma UploadTarballs_run_events:
  assumes "fail_early w bc (targets bc) = None" and "t \<in> set (targets bc)"
  shows "set (fst (uploadTarball w dry bc t)) \<subseteq> set (fst (UploadTarballs_run w dry bc))"
  using assms by (auto simp add: UploadTarballs_run_def Let_def set_fst_promise_all)

lemma public_read_upload:
  assumes "acl (s3Config bc) = None"
  shows "\<forall>e\<in>set (fst (uploadTarball w dry bc t)). public_read e"
  unfolding uploadTarball_def Let_def
proof (rule promise_all_events)
  fix task
  assume "task \<in> set ([releaseTarballs w dry bc \<lparr>arch = arch t, platform = platform t\<rparr> TarGz,
                       maybeUploadManifest w dry bc \<lparr>arch = arch t, platform = platform t\<rparr>]
                      @ (if xz bc
                         then [releaseTarballs w dry bc \<lparr>arch = arch t, platform = platform t\<rparr> TarXz]
                         else []))"
  then consider ext where "task = releaseTarballs w dry bc t ext"
    | "task = maybeUploadManifest w dry bc t"
    by (auto simp add: target_eta split: if_splits)
  then show "\<forall>e\<in>set (fst task). public_read e"
  proof cases
    case 1
    then show ?thesis
      using assms unfolding releaseTarballs_def
      by (auto intro!: with_key_events
          simp add: uploadFile_def public_read_def S3Options_ACL_def)
  next
    case 2
    then show ?thesis
      using assms unfolding maybeUploadManifest_def
      by (auto intro!: with_key_events
          simp add: uploadFile_def public_read_def S3Options_ACL_def promise_all_def Let_def
          split: if_splits)
  qed
qed

lemma public_read_UploadTarballs_run:
  assumes "acl (s3Config bc) = None"
  shows "\<forall>e\<in>set (fst (UploadTarballs_run w dry bc)). public_read e"
proof -
  have "\<forall>e\<in>set (fst (promise_all (map (uploadTarball w dry bc) (targets bc)))). public_read e"
    by (rule promise_all_events) (auto simp add: public_read_upload [OF assms])
  then show ?thesis
    by (auto simp add: UploadTarballs_run_def Let_def public_read_def split: option.splits)
qed

lemma public_read_copyObject:
  assumes "acl (s3Config bc) = None"
  shows "\<forall>e\<in>set (fst (copyObject w (awsDefaults flags bc bkt src dst) opts)). public_read e"
  using assms by (simp add: copyObject_def public_read_def awsDefaults_def)

lemma public_read_appendToIndex: "\<forall>e\<in>set (fst (appendToIndex w input)). public_read e"
  by (simp add: appendToIndex_def public_read_def)

lemma public_read_promoteManifest:
  assumes "acl (s3Config bc) = None"
  shows "\<forall>e\<in>set (fst (promoteManifest w flags bc bkt t)). public_read e"
  unfolding promoteManifest_def Let_def
  by (intro with_key_events public_read_copyObject [OF assms])

lemma public_read_promoteTarballs:
  assumes "acl (s3Config bc) = None"
  shows "\<forall>e\<in>set (fst (promoteTarballs w flags bc bkt ext t)). public_read e"
  unfolding promoteTarballs_def Let_def
  by (intro with_key_events promise_all_events)
     (auto simp add: public_read_copyObject [OF assms] public_read_appendToIndex)

lemma public_read_promoteInstaller:
  assumes "acl (s3Config bc) = None"
  shows "\<forall>e\<in>set (fst (promoteInstaller w flags bc bkt ty a)). public_read e"
  unfolding promoteInstaller_def Let_def
  by (intro with_key_events promise_all_events)
     (auto simp add: public_read_copyObject [OF assms] public_read_appendToIndex)

lemma public_read_promoteMacInstallers:
  assumes "acl (s3Config bc) = None"
  shows "\<forall>e\<in>set (fst (promoteMacInstallers w flags bc bkt)). public_read e"
  unfolding promoteMacInstallers_def Let_def
  by (rule promise_all_events) (auto simp add: public_read_promoteInstaller [OF assms])

lemma public_read_promoteWindowsInstallers:
  assumes "acl (s3Config bc) = None"
  shows "\<forall>e\<in>set (fst (promoteWindowsInstallers w flags bc bkt)). public_read e"
  unfolding promoteWindowsInstallers_def Let_def
  by (rule promise_all_events) (auto simp add: public_read_promoteInstaller [OF assms])

lemma public_read_promoteWindowsInstallers_resumed:
  "\<forall>e\<in>set (promoteWindowsInstallers_resumed w flags bc bkt). public_read e"
  by (auto simp add: promoteWindowsInstallers_resumed_def Let_def public_read_def
      split: if_splits)

lemma public_read_promoteArtifact:
  assumes "acl (s3Config bc) = None" and "task \<in> set (promoteArtifact w flags bc bkt artifact)"
  shows "\<forall>e\<in>set (fst task). public_read e"
  using assms(2) public_read_copyObject [OF assms(1)]
  by (auto simp add: promoteArtifact_def Let_def)

lemma public_read_promoteDebianAptPackages:
  assumes "acl (s3Config bc) = None"
  shows "\<forall>e\<in>set (fst (promoteDebianAptPackages w flags bc bkt)). public_read e"
  unfolding promoteDebianAptPackages_def
  by (intro with_key_events promise_all_events) (auto dest: public_read_promoteArtifact [OF assms])

lemma public_read_Promote_run:
  assumes "acl (s3Config bc) = None"
  shows "\<forall>e\<in>set (fst (Promote_run w flags bc)). public_read e"
proof -
  have copies: "\<forall>e\<in>set (fst (promise_all
                       (concat (map (\<lambda>target. [promoteManifest w flags bc bkt target,
                                                promoteGzTarballs w flags bc bkt target])
                                  (targets bc))
                        @ (if flag_xz flags
                           then map (promoteXzTarballs w flags bc bkt) (targets bc)
                           else [])
                        @ (if flag_macos flags
                           then [promoteMacInstallers w flags bc bkt] else [])
                        @ (if flag_win flags
                           then [promoteWindowsInstallers w flags bc bkt] else [])
                        @ (if flag_deb flags
                           then [promoteDebianAptPackages w flags bc bkt] else [])))).
                  public_read e" for bkt
    by (rule promise_all_events)
       (auto simp add: public_read_promoteManifest [OF assms] public_read_promoteTarballs [OF assms]
          public_read_promoteMacInstallers [OF assms] public_read_promoteWindowsInstallers [OF assms]
          public_read_promoteDebianAptPackages [OF assms] promoteGzTarballs_def
          promoteXzTarballs_def split: if_splits)
  have announce: "public_read (Warn s)" "public_read (Log s)" for s
    by (simp_all add: public_read_def)
  show ?thesis
    unfolding Promote_run_def Let_def
    using copies announce public_read_promoteWindowsInstallers_resumed [of w flags bc]
    by (auto split: option.splits if_splits)
qed

lemma collect_map:
  assumes "\<forall>x\<in>set xs. f x = Inr (g x)"
  shows "collect (map f xs) = Inr (map g xs)"
  using assms by (induction xs) simp_all

lemma debArtifacts_mapped:
  assumes "\<forall>t\<in>set (targets bc).
             platform t = ''linux'' \<and> \<not> str_includes (arch t) ''x86''
             \<longrightarrow> (\<exists>d. debArch (arch t) = Inr d)"
  shows "debArtifacts bc
         = Inr (map (\<lambda>t. config_bin (config bc) @ ''_'' @ debVersion bc @ ''_''
                           @ (case debArch (arch t) of Inl e \<Rightarrow> [] | Inr d \<Rightarrow> d) @ ''.deb'')
                  (filter (\<lambda>t. platform t = ''linux'' \<and> \<not> str_includes (arch t) ''x86'')
                     (targets bc))
                @ [''Packages.gz'', ''Packages.xz'', ''Packages.bz2'', ''Release'', ''InRelease'',
                   ''Release.gpg''])"
proof -
  have "collect (map (debKey bc)
                  (filter (\<lambda>t. platform t = ''linux'' \<and> \<not> str_includes (arch t) ''x86'')
                     (targets bc)))
        = Inr (map (\<lambda>t. config_bin (config bc) @ ''_'' @ debVersion bc @ ''_''
                           @ (case debArch (arch t) of Inl e \<Rightarrow> [] | Inr d \<Rightarrow> d) @ ''.deb'')
                 (filter (\<lambda>t. platform t = ''linux'' \<and> \<not> str_includes (arch t) ''x86'')
                    (targets bc)))"
    using assms
    by (intro collect_map) (auto simp add: debKey_def templateShortKey_Deb)
  then show ?thesis
    by (simp add: debArtifacts_def Let_def)
qed

lemma debKey_error:
  assumes "debKey bc t = Inl e"
  shows "e = InvalidArch (''invalid arch: '' @ arch t)"
proof (cases "debArch (arch t)")
  case (Inl e')
  then have "e' = InvalidArch (''invalid arch: '' @ arch t)"
    by (simp add: debArch_def split: if_splits)
  with Inl assms show ?thesis
    by (simp add: debKey_def)
next
  case (Inr d)
  then have "debKey bc t
             = Inr (config_bin (config bc) @ ''_'' @ debVersion bc @ ''_'' @ d @ ''.deb'')"
    by (simp add: debKey_def templateShortKey_Deb)
  with assms show ?thesis
    by simp
qed

lemma collect_error:
  assumes "collect (map f xs) = Inl e"
  shows "\<exists>x\<in>set xs. f x = Inl e"
  using assms by (induction xs) (auto split: sum.splits)

lemma collect_fails:
  assumes "x \<in> set xs" and "f x = Inl e"
  shows "\<exists>e'. collect (map f xs) = Inl e'"
  using assms by (induction xs) (auto split: sum.splits)

text \<open>A linux target without an x86 architecture that \<open>debArch\<close> does not know ends
  the Debian promotion before any copy is issued.\<close>

lemma debian_promotion_invalid_arch:
  assumes "t \<in> set (targets bc)" and "platform t = ''linux''"
    and "\<not> str_includes (arch t) ''x86''" and "debArch (arch t) = Inl e"
  shows "\<exists>t'\<in>set (targets bc).
           promoteDebianAptPackages w flags bc bkt
           = ([], [InvalidArch (''invalid arch: '' @ arch t')])"
proof -
  let ?xs = "filter (\<lambda>a. \<not> str_includes (arch a) ''x86'')
               (filter (\<lambda>t. platform t = ''linux'') (targets bc))"
  have mem: "t \<in> set ?xs"
    using assms(1-3) by simp
  have bad: "debKey bc t = Inl e"
    using assms(4) by (simp add: debKey_def)
  from collect_fails [of t _ "debKey bc", OF mem bad] obtain e' where e': "collect (map (debKey bc) ?xs) = Inl e'"
    by (rule exE)
  from collect_error [of "debKey bc", OF e'] obtain t' where t': "t' \<in> set ?xs" and k: "debKey bc t' = Inl e'"
    by (rule bexE)
  from t' have in_targets: "t' \<in> set (targets bc)"
    by simp
  from debKey_error [OF k] have err: "e' = InvalidArch (''invalid arch: '' @ arch t')" .
  have "debArtifacts bc = Inl e'"
    using e' by (simp add: debArtifacts_def)
  then have "promoteDebianAptPackages w flags bc bkt
             = ([], [InvalidArch (''invalid arch: '' @ arch t')])"
    by (simp add: promoteDebianAptPackages_def with_key_def err)
  with in_targets show ?thesis
    by (rule bexI [rotated])
qed

text \<open>
  C5. If the \<open>.tar.gz\<close> tarball of any target of the build configuration is not on disk,
  the upload command makes no call at all (no upload for any target, not even a log
  line) and fails with an error that names a target whose tarball is missing and its
  path, and suggests the \<open>oclif pack --target\<close> command for that target.
\<close>

theorem upload_fails_early:
  assumes "t \<in> set (targets bc)"
    and "versioned (config bc) (s3Config bc) (upload_options bc) TarGz t = Inr k"
    and "\<not> existsSync w (dist bc k)"
  shows "\<exists>t' k'. t' \<in> set (targets bc)
           \<and> versioned (config bc) (s3Config bc) (upload_options bc) TarGz t' = Inr k'
           \<and> \<not> existsSync w (dist bc k')
           \<and> UploadTarballs_run w dry bc
             = ([], [CLIError
                 (''Cannot find a tarball '' @ dist bc k' @ '' for '' @ platform t' @ ''-''
                    @ arch t')
                 [''Run '' @ [CHR 0x22] @ ''oclif pack --target '' @ platform t' @ ''-''
                    @ arch t' @ [CHR 0x22] @ '' before uploading'']])"
proof -
  from fail_early_missing [OF assms] obtain t' k' where
    "t' \<in> set (targets bc)"
    "versioned (config bc) (s3Config bc) (upload_options bc) TarGz t' = Inr k'"
    "\<not> existsSync w (dist bc k')"
    "fail_early w bc (targets bc)
             = Some (CLIError
                 (''Cannot find a tarball '' @ dist bc k' @ '' for '' @ platform t' @ ''-''
                    @ arch t')
                 [''Run '' @ [CHR 0x22] @ ''oclif pack --target '' @ platform t' @ ''-''
                    @ arch t' @ [CHR 0x22] @ '' before uploading''])"
    by blast
  then show ?thesis
    by (intro exI [of _ t'] exI [of _ k']) (simp add: UploadTarballs_run_def)
qed

theorem upload_fails_early_witness:
  "darwin_arm64 \<in> set (targets (test_buildConfig (test_config False) [linux_x64, darwin_arm64] False))
   \<and> versioned (config (test_buildConfig (test_config False) [linux_x64, darwin_arm64] False))
        (s3Config (test_buildConfig (test_config False) [linux_x64, darwin_arm64] False))
        (upload_options (test_buildConfig (test_config False) [linux_x64, darwin_arm64] False))
        TarGz darwin_arm64
      = Inr ''mycli-v1.2.3-abc1234-darwin-arm64.tar.gz''
   \<and> \<not> existsSync (test_world [''dist/mycli-v1.2.3-abc1234-linux-x64.tar.gz''])
         (dist (test_buildConfig (test_config False) [linux_x64, darwin_arm64] False)
            ''mycli-v1.2.3-abc1234-darwin-arm64.tar.gz'')
   \<and> UploadTarballs_run (test_world [''dist/mycli-v1.2.3-abc1234-linux-x64.tar.gz'']) False
        (test_buildConfig (test_config False) [linux_x64, darwin_arm64] False)
      = ([], [CLIError
               ''Cannot find a tarball dist/mycli-v1.2.3-abc1234-darwin-arm64.tar.gz for darwin-arm64''
               [''Run '' @ [CHR 0x22] @ ''oclif pack --target darwin-arm64'' @ [CHR 0x22]
                  @ '' before uploading'']])"
proof -
  let ?bc = "test_buildConfig (test_config False) [linux_x64, darwin_arm64] False"
  let ?w = "test_world [''dist/mycli-v1.2.3-abc1234-linux-x64.tar.gz'']"
  have h1: "darwin_arm64 \<in> set (targets ?bc)"
    by (simp add: test_buildConfig_def)
  have h2: "versioned (config ?bc) (s3Config ?bc) (upload_options ?bc) TarGz darwin_arm64
      = Inr ''mycli-v1.2.3-abc1234-darwin-arm64.tar.gz''"
    by (simp add: key_defs upload_options_def test_defs)
  have h3: "\<not> existsSync ?w (dist ?bc ''mycli-v1.2.3-abc1234-darwin-arm64.tar.gz'')"
    by (simp add: test_defs)
  have lx: "versioned (config ?bc) (s3Config ?bc) (upload_options ?bc) TarGz linux_x64
      = Inr ''mycli-v1.2.3-abc1234-linux-x64.tar.gz''"
    by (simp add: key_defs upload_options_def test_defs)
  have ex: "existsSync ?w (dist ?bc ''mycli-v1.2.3-abc1234-linux-x64.tar.gz'')"
    by (simp add: test_defs)
  from upload_fails_early [OF h1 h2 h3, of False] obtain t' k' where
    t': "t' \<in> set (targets ?bc)"
    and k': "versioned (config ?bc) (s3Config ?bc) (upload_options ?bc) TarGz t' = Inr k'"
    and miss: "\<not> existsSync ?w (dist ?bc k')"
    and run: "UploadTarballs_run ?w False ?bc
             = ([], [CLIError
                 (''Cannot find a tarball '' @ dist ?bc k' @ '' for '' @ platform t' @ ''-''
                    @ arch t')
                 [''Run '' @ [CHR 0x22] @ ''oclif pack --target '' @ platform t' @ ''-''
                    @ arch t' @ [CHR 0x22] @ '' before uploading'']])"
    by blast
  from t' have "t' = linux_x64 \<or> t' = darwin_arm64"
    by (simp add: test_buildConfig_def)
  then have "t' = darwin_arm64"
    using k' miss lx ex by auto
  with k' h2 have "k' = ''mycli-v1.2.3-abc1234-darwin-arm64.tar.gz''"
    by simp
  with run \<open>t' = darwin_arm64\<close> have "UploadTarballs_run ?w False ?bc
      = ([], [CLIError
               ''Cannot find a tarball dist/mycli-v1.2.3-abc1234-darwin-arm64.tar.gz for darwin-arm64''
               [''Run '' @ [CHR 0x22] @ ''oclif pack --target darwin-arm64'' @ [CHR 0x22]
                  @ '' before uploading'']])"
    by (simp add: darwin_arm64_def test_buildConfig_def)
  with h1 h2 h3 show ?thesis
    by blast
qed

lemma UploadTarballs_run_passed:
  assumes "fail_early w bc (targets bc) = None"
  shows "UploadTarballs_run w dry bc
         = ((if targets bc \<noteq> [] then [Log ''uploading targets''] else [])
            @ concat (map (\<lambda>t. fst (uploadTarball w dry bc t)) (targets bc))
            @ (if concat (map (\<lambda>t. snd (uploadTarball w dry bc t)) (targets bc)) = []
               then [Log (''done uploading tarballs & manifests for v''
                            @ config_version (config bc) @ ''-'' @ gitSha bc)]
               else []),
            concat (map (\<lambda>t. snd (uploadTarball w dry bc t)) (targets bc)))"
  using assms by (simp add: UploadTarballs_run_def Let_def promise_all_def comp_def)

lemma uploadTarball_parts:
  "uploadTarball w dry bc t
   = (fst (releaseTarballs w dry bc t TarGz) @ fst (maybeUploadManifest w dry bc t)
      @ (if xz bc then fst (releaseTarballs w dry bc t TarXz) else []),
      snd (releaseTarballs w dry bc t TarGz) @ snd (maybeUploadManifest w dry bc t)
      @ (if xz bc then snd (releaseTarballs w dry bc t TarXz) else []))"
  by (simp add: uploadTarball_def Let_def promise_all_def target_eta)

text \<open>
  C8. If the local build manifest of a target exists, \<open>maybeUploadManifest\<close> uploads it
  to its cloud key with \<open>max-age=86400\<close> and content type \<open>application/json\<close>; if it
  does not exist, it writes a warning, uploads nothing and fails with nothing. A run that
  passed the tarball check consists of exactly these calls, for every target between the
  upload of its \<open>.tar.gz\<close> and of its \<open>.tar.xz\<close>, and its errors are the errors of these
  calls: the manifest upload or the warning of a target is among the events of the run,
  and a run whose tarball uploads are accepted and whose manifests are all missing ends
  without an error, with its closing log line.
\<close>

theorem manifest_upload_or_warning:
  assumes "manifest (config bc) (s3Config bc) (upload_options bc) t = Inr m"
  shows "(existsSync w (dist bc m) \<longrightarrow>
            maybeUploadManifest w dry bc t
            = ([Log (''checking for buildmanifest at '' @ dist bc m),
                Log (''uploading buildmanifest '' @ m),
                UploadFile (dist bc m)
                  \<lparr>put_ACL = S3Options_ACL (s3Config bc), put_Bucket = bucket (s3Config bc),
                   put_CacheControl = ''max-age=86400'', put_ContentType = ''application/json'',
                   put_Key = cloudKey (config bc) (s3Config bc) (upload_options bc) m\<rparr>
                  dry],
               rejected (uploadFile_rejects w (dist bc m)
                  \<lparr>put_ACL = S3Options_ACL (s3Config bc), put_Bucket = bucket (s3Config bc),
                   put_CacheControl = ''max-age=86400'', put_ContentType = ''application/json'',
                   put_Key = cloudKey (config bc) (s3Config bc) (upload_options bc) m\<rparr>
                  dry)))
       \<and> (\<not> existsSync w (dist bc m) \<longrightarrow>
            maybeUploadManifest w dry bc t
            = ([Log (''checking for buildmanifest at '' @ dist bc m),
                Warn (''Cannot find buildmanifest '' @ dist bc m
                        @ ''. CLI will not be able to update itself.'')], []))
       \<and> (fail_early w bc (targets bc) = None \<longrightarrow>
            snd (UploadTarballs_run w dry bc)
            = concat (map (rejections w) (fst (UploadTarballs_run w dry bc))))
       \<and> (fail_early w bc (targets bc) = None \<longrightarrow>
            fst (UploadTarballs_run w dry bc)
            = (if targets bc \<noteq> [] then [Log ''uploading targets''] else [])
              @ concat (map (\<lambda>t'. fst (releaseTarballs w dry bc t' TarGz)
                                   @ fst (maybeUploadManifest w dry bc t')
                                   @ (if xz bc then fst (releaseTarballs w dry bc t' TarXz) else []))
                          (targets bc))
              @ (if snd (UploadTarballs_run w dry bc) = []
                 then [Log (''done uploading tarballs & manifests for v''
                              @ config_version (config bc) @ ''-'' @ gitSha bc)]
                 else [])
            \<and> snd (UploadTarballs_run w dry bc)
              = concat (map (\<lambda>t'. snd (releaseTarballs w dry bc t' TarGz)
                                   @ snd (maybeUploadManifest w dry bc t')
                                   @ (if xz bc then snd (releaseTarballs w dry bc t' TarXz) else []))
                          (targets bc)))
       \<and> (fail_early w bc (targets bc) = None \<and> t \<in> set (targets bc)
            \<and> existsSync w (dist bc m) \<longrightarrow>
            UploadFile (dist bc m)
              \<lparr>put_ACL = S3Options_ACL (s3Config bc), put_Bucket = bucket (s3Config bc),
               put_CacheControl = ''max-age=86400'', put_ContentType = ''application/json'',
               put_Key = cloudKey (config bc) (s3Config bc) (upload_options bc) m\<rparr> dry
            \<in> set (fst (UploadTarballs_run w dry bc)))
       \<and> (fail_early w bc (targets bc) = None \<and> t \<in> set (targets bc)
            \<and> \<not> existsSync w (dist bc m) \<longrightarrow>
            Warn (''Cannot find buildmanifest '' @ dist bc m
                    @ ''. CLI will not be able to update itself.'')
            \<in> set (fst (UploadTarballs_run w dry bc)))
       \<and> (fail_early w bc (targets bc) = None
            \<and> (\<forall>t'\<in>set (targets bc).
                  snd (releaseTarballs w dry bc t' TarGz) = []
                  \<and> (xz bc \<longrightarrow> snd (releaseTarballs w dry bc t' TarXz) = []))
            \<and> (\<forall>t'\<in>set (targets bc). \<forall>m'.
                  manifest (config bc) (s3Config bc) (upload_options bc) t' = Inr m'
                  \<longrightarrow> \<not> existsSync w (dist bc m')) \<longrightarrow>
            snd (UploadTarballs_run w dry bc) = []
            \<and> Log (''done uploading tarballs & manifests for v''
                     @ config_version (config bc) @ ''-'' @ gitSha bc)
              \<in> set (fst (UploadTarballs_run w dry bc)))"
proof -
  let ?up = "UploadFile (dist bc m)
              \<lparr>put_ACL = S3Options_ACL (s3Config bc), put_Bucket = bucket (s3Config bc),
               put_CacheControl = ''max-age=86400'', put_ContentType = ''application/json'',
               put_Key = cloudKey (config bc) (s3Config bc) (upload_options bc) m\<rparr> dry"
  let ?warn = "Warn (''Cannot find buildmanifest '' @ dist bc m
                    @ ''. CLI will not be able to update itself.'')"
  let ?done = "Log (''done uploading tarballs & manifests for v''
                     @ config_version (config bc) @ ''-'' @ gitSha bc)"
  have present: "existsSync w (dist bc m) \<Longrightarrow>
            maybeUploadManifest w dry bc t
            = ([Log (''checking for buildmanifest at '' @ dist bc m),
                Log (''uploading buildmanifest '' @ m), ?up],
               rejected (uploadFile_rejects w (dist bc m)
                  \<lparr>put_ACL = S3Options_ACL (s3Config bc), put_Bucket = bucket (s3Config bc),
                   put_CacheControl = ''max-age=86400'', put_ContentType = ''application/json'',
                   put_Key = cloudKey (config bc) (s3Config bc) (upload_options bc) m\<rparr>
                  dry))"
    using assms
    by (simp add: maybeUploadManifest_def with_key_def uploadFile_def promise_all_def Let_def)
  have absent: "\<not> existsSync w (dist bc m) \<Longrightarrow>
            maybeUploadManifest w dry bc t
            = ([Log (''checking for buildmanifest at '' @ dist bc m), ?warn], [])"
    using assms by (simp add: maybeUploadManifest_def with_key_def Let_def)
  have absent_any: "snd (maybeUploadManifest w dry bc t') = []"
    if "\<forall>m'. manifest (config bc) (s3Config bc) (upload_options bc) t' = Inr m'
              \<longrightarrow> \<not> existsSync w (dist bc m')" for t'
  proof -
    obtain m' where m': "manifest (config bc) (s3Config bc) (upload_options bc) t' = Inr m'"
      using manifest_total by blast
    with that have "\<not> existsSync w (dist bc m')"
      by blast
    with m' show ?thesis
      by (simp add: maybeUploadManifest_def with_key_def Let_def)
  qed
  have run: "fst (UploadTarballs_run w dry bc)
            = (if targets bc \<noteq> [] then [Log ''uploading targets''] else [])
              @ concat (map (\<lambda>t'. fst (releaseTarballs w dry bc t' TarGz)
                                   @ fst (maybeUploadManifest w dry bc t')
                                   @ (if xz bc then fst (releaseTarballs w dry bc t' TarXz) else []))
                          (targets bc))
              @ (if snd (UploadTarballs_run w dry bc) = [] then [?done] else [])"
    and errs: "snd (UploadTarballs_run w dry bc)
              = concat (map (\<lambda>t'. snd (releaseTarballs w dry bc t' TarGz)
                                   @ snd (maybeUploadManifest w dry bc t')
                                   @ (if xz bc then snd (releaseTarballs w dry bc t' TarXz) else []))
                          (targets bc))"
    if "fail_early w bc (targets bc) = None"
    by (simp_all add: UploadTarballs_run_passed [OF that] uploadTarball_parts)
  have among: "set (fst (maybeUploadManifest w dry bc t)) \<subseteq> set (fst (UploadTarballs_run w dry bc))"
    if "fail_early w bc (targets bc) = None" and "t \<in> set (targets bc)"
    using that(2) unfolding run [OF that(1)] by auto
  have no_errors: "snd (UploadTarballs_run w dry bc) = []"
    if "fail_early w bc (targets bc) = None"
      and "\<forall>t'\<in>set (targets bc).
                  snd (releaseTarballs w dry bc t' TarGz) = []
                  \<and> (xz bc \<longrightarrow> snd (releaseTarballs w dry bc t' TarXz) = [])"
      and "\<forall>t'\<in>set (targets bc). \<forall>m'.
                  manifest (config bc) (s3Config bc) (upload_options bc) t' = Inr m'
                  \<longrightarrow> \<not> existsSync w (dist bc m')"
    unfolding errs [OF that(1)] using that(2,3) by (auto simp add: absent_any)
  have finished: "?done \<in> set (fst (UploadTarballs_run w dry bc))"
    if "fail_early w bc (targets bc) = None" and "snd (UploadTarballs_run w dry bc) = []"
    by (subst run [OF that(1)]) (simp add: that(2))
  show ?thesis
  proof (intro conjI impI)
    show "maybeUploadManifest w dry bc t
            = ([Log (''checking for buildmanifest at '' @ dist bc m),
                Log (''uploading buildmanifest '' @ m), ?up],
               rejected (uploadFile_rejects w (dist bc m)
                  \<lparr>put_ACL = S3Options_ACL (s3Config bc), put_Bucket = bucket (s3Config bc),
                   put_CacheControl = ''max-age=86400'', put_ContentType = ''application/json'',
                   put_Key = cloudKey (config bc) (s3Config bc) (upload_options bc) m\<rparr>
                  dry))"
      if "existsSync w (dist bc m)"
      using that by (rule present)
    show "maybeUploadManifest w dry bc t
            = ([Log (''checking for buildmanifest at '' @ dist bc m), ?warn], [])"
      if "\<not> existsSync w (dist bc m)"
      using that by (rule absent)
    show "snd (UploadTarballs_run w dry bc)
            = concat (map (rejections w) (fst (UploadTarballs_run w dry bc)))"
      if "fail_early w bc (targets bc) = None"
      using that by (rule UploadTarballs_run_rejections)
    show "fst (UploadTarballs_run w dry bc)
            = (if targets bc \<noteq> [] then [Log ''uploading targets''] else [])
              @ concat (map (\<lambda>t'. fst (releaseTarballs w dry bc t' TarGz)
                                   @ fst (maybeUploadManifest w dry bc t')
                                   @ (if xz bc then fst (releaseTarballs w dry bc t' TarXz) else []))
                          (targets bc))
              @ (if snd (UploadTarballs_run w dry bc) = [] then [?done] else [])"
      if "fail_early w bc (targets bc) = None"
      using that by (rule run)
    show "snd (UploadTarballs_run w dry bc)
              = concat (map (\<lambda>t'. snd (releaseTarballs w dry bc t' TarGz)
                                   @ snd (maybeUploadManifest w dry bc t')
                                   @ (if xz bc then snd (releaseTarballs w dry bc t' TarXz) else []))
                          (targets bc))"
      if "fail_early w bc (targets bc) = None"
      using that by (rule errs)
    show "?up \<in> set (fst (UploadTarballs_run w dry bc))"
      if "fail_early w bc (targets bc) = None \<and> t \<in> set (targets bc) \<and> existsSync w (dist bc m)"
      using that among present by auto
    show "?warn \<in> set (fst (UploadTarballs_run w dry bc))"
      if "fail_early w bc (targets bc) = None \<and> t \<in> set (targets bc)
            \<and> \<not> existsSync w (dist bc m)"
      using that among absent by auto
    show "snd (UploadTarballs_run w dry bc) = []"
      if "fail_early w bc (targets bc) = None
            \<and> (\<forall>t'\<in>set (targets bc).
                  snd (releaseTarballs w dry bc t' TarGz) = []
                  \<and> (xz bc \<longrightarrow> snd (releaseTarballs w dry bc t' TarXz) = []))
            \<and> (\<forall>t'\<in>set (targets bc). \<forall>m'.
                  manifest (config bc) (s3Config bc) (upload_options bc) t' = Inr m'
                  \<longrightarrow> \<not> existsSync w (dist bc m'))"
      using that no_errors by blast
    show "?done \<in> set (fst (UploadTarballs_run w dry bc))"
      if "fail_early w bc (targets bc) = None
            \<and> (\<forall>t'\<in>set (targets bc).
                  snd (releaseTarballs w dry bc t' TarGz) = []
                  \<and> (xz bc \<longrightarrow> snd (releaseTarballs w dry bc t' TarXz) = []))
            \<and> (\<forall>t'\<in>set (targets bc). \<forall>m'.
                  manifest (config bc) (s3Config bc) (upload_options bc) t' = Inr m'
                  \<longrightarrow> \<not> existsSync w (dist bc m'))"
      using that no_errors finished by blast
  qed
qed

theorem manifest_upload_or_warning_witness:
  "manifest (config (test_buildConfig (test_config False) [linux_x64] False))
     (s3Config (test_buildConfig (test_config False) [linux_x64] False))
     (upload_options (test_buildConfig (test_config False) [linux_x64] False)) linux_x64
   = Inr ''mycli-v1.2.3-abc1234-linux-x64-buildmanifest''
   \<and> linux_x64 \<in> set (targets (test_buildConfig (test_config False) [linux_x64] False))
   \<and> \<not> existsSync (test_world [''dist/mycli-v1.2.3-abc1234-linux-x64.tar.gz''])
         (dist (test_buildConfig (test_config False) [linux_x64] False)
            ''mycli-v1.2.3-abc1234-linux-x64-buildmanifest'')
   \<and> fail_early (test_world [''dist/mycli-v1.2.3-abc1234-linux-x64.tar.gz''])
        (test_buildConfig (test_config False) [linux_x64] False)
        (targets (test_buildConfig (test_config False) [linux_x64] False)) = None
   \<and> maybeUploadManifest (test_world [''dist/mycli-v1.2.3-abc1234-linux-x64.tar.gz'']) False
        (test_buildConfig (test_config False) [linux_x64] False) linux_x64
     = ([Log ''checking for buildmanifest at dist/mycli-v1.2.3-abc1234-linux-x64-buildmanifest'',
         Warn (''Cannot find buildmanifest dist/mycli-v1.2.3-abc1234-linux-x64-buildmanifest''
               @ ''. CLI will not be able to update itself.'')], [])
   \<and> UploadTarballs_run (test_world [''dist/mycli-v1.2.3-abc1234-linux-x64.tar.gz'']) False
        (test_buildConfig (test_config False) [linux_x64] False)
     = ([Log ''uploading targets'',
         UploadFile ''dist/mycli-v1.2.3-abc1234-linux-x64.tar.gz''
           \<lparr>put_ACL = ''public-read'', put_Bucket = Some ''my-bucket'',
            put_CacheControl = ''max-age=604800'', put_ContentType = ''application/gzip'',
            put_Key = ''versions/1.2.3/abc1234/mycli-v1.2.3-abc1234-linux-x64.tar.gz''\<rparr> False,
         Log ''checking for buildmanifest at dist/mycli-v1.2.3-abc1234-linux-x64-buildmanifest'',
         Warn (''Cannot find buildmanifest dist/mycli-v1.2.3-abc1234-linux-x64-buildmanifest''
               @ ''. CLI will not be able to update itself.''),
         Log ''done uploading tarballs & manifests for v1.2.3-abc1234''], [])
   \<and> existsSync (test_world [''dist/mycli-v1.2.3-abc1234-linux-x64.tar.gz'',
                               ''dist/mycli-v1.2.3-abc1234-linux-x64-buildmanifest''])
        (dist (test_buildConfig (test_config False) [linux_x64] False)
           ''mycli-v1.2.3-abc1234-linux-x64-buildmanifest'')
   \<and> fail_early (test_world [''dist/mycli-v1.2.3-abc1234-linux-x64.tar.gz'',
                               ''dist/mycli-v1.2.3-abc1234-linux-x64-buildmanifest''])
        (test_buildConfig (test_config False) [linux_x64] False)
        (targets (test_buildConfig (test_config False) [linux_x64] False)) = None
   \<and> UploadTarballs_run (test_world [''dist/mycli-v1.2.3-abc1234-linux-x64.tar.gz'',
                                       ''dist/mycli-v1.2.3-abc1234-linux-x64-buildmanifest''])
        False (test_buildConfig (test_config False) [linux_x64] False)
     = ([Log ''uploading targets'',
         UploadFile ''dist/mycli-v1.2.3-abc1234-linux-x64.tar.gz''
           \<lparr>put_ACL = ''public-read'', put_Bucket = Some ''my-bucket'',
            put_CacheControl = ''max-age=604800'', put_ContentType = ''application/gzip'',
            put_Key = ''versions/1.2.3/abc1234/mycli-v1.2.3-abc1234-linux-x64.tar.gz''\<rparr> False,
         Log ''checking for buildmanifest at dist/mycli-v1.2.3-abc1234-linux-x64-buildmanifest'',
         Log ''uploading buildmanifest mycli-v1.2.3-abc1234-linux-x64-buildmanifest'',
         UploadFile ''dist/mycli-v1.2.3-abc1234-linux-x64-buildmanifest''
           \<lparr>put_ACL = ''public-read'', put_Bucket = Some ''my-bucket'',
            put_CacheControl = ''max-age=86400'', put_ContentType = ''application/json'',
            put_Key = ''versions/1.2.3/abc1234/mycli-v1.2.3-abc1234-linux-x64-buildmanifest''\<rparr>
           False,
         Log ''done uploading tarballs & manifests for v1.2.3-abc1234''], [])"
proof -
  let ?bc = "test_buildConfig (test_config False) [linux_x64] False"
  let ?w = "test_world [''dist/mycli-v1.2.3-abc1234-linux-x64.tar.gz'']"
  let ?w2 = "test_world [''dist/mycli-v1.2.3-abc1234-linux-x64.tar.gz'',
                         ''dist/mycli-v1.2.3-abc1234-linux-x64-buildmanifest'']"
  have m: "manifest (config ?bc) (s3Config ?bc) (upload_options ?bc) linux_x64
           = Inr ''mycli-v1.2.3-abc1234-linux-x64-buildmanifest''"
    by (simp add: key_defs upload_options_def test_defs)
  have t: "linux_x64 \<in> set (targets ?bc)"
    by (simp add: test_buildConfig_def)
  have a: "\<not> existsSync ?w (dist ?bc ''mycli-v1.2.3-abc1234-linux-x64-buildmanifest'')"
    by (simp add: test_defs)
  have p: "existsSync ?w2 (dist ?bc ''mycli-v1.2.3-abc1234-linux-x64-buildmanifest'')"
    by (simp add: test_defs)
  have f: "fail_early ?w ?bc (targets ?bc) = None"
    by (simp add: key_defs upload_options_def test_defs)
  have f2: "fail_early ?w2 ?bc (targets ?bc) = None"
    by (simp add: key_defs upload_options_def test_defs)
  have tar: "\<forall>t'\<in>set (targets ?bc).
               snd (releaseTarballs ?w False ?bc t' TarGz) = []
               \<and> (xz ?bc \<longrightarrow> snd (releaseTarballs ?w False ?bc t' TarXz) = [])"
    by (simp add: upload_defs key_defs test_defs)
  have none: "\<forall>t'\<in>set (targets ?bc). \<forall>m'.
                manifest (config ?bc) (s3Config ?bc) (upload_options ?bc) t' = Inr m'
                \<longrightarrow> \<not> existsSync ?w (dist ?bc m')"
    using m a by (simp add: test_buildConfig_def)
  note absent_case = manifest_upload_or_warning [OF m, of ?w False]
  note present_case = manifest_upload_or_warning [OF m, of ?w2 False]
  from absent_case a have warned: "maybeUploadManifest ?w False ?bc linux_x64
     = ([Log (''checking for buildmanifest at ''
              @ dist ?bc ''mycli-v1.2.3-abc1234-linux-x64-buildmanifest''),
         Warn (''Cannot find buildmanifest ''
               @ dist ?bc ''mycli-v1.2.3-abc1234-linux-x64-buildmanifest''
               @ ''. CLI will not be able to update itself.'')], [])"
    by blast
  from absent_case f tar none have ok: "snd (UploadTarballs_run ?w False ?bc) = []"
    by blast
  from present_case f2 t p have "UploadFile (dist ?bc ''mycli-v1.2.3-abc1234-linux-x64-buildmanifest'')
              \<lparr>put_ACL = S3Options_ACL (s3Config ?bc), put_Bucket = bucket (s3Config ?bc),
               put_CacheControl = ''max-age=86400'', put_ContentType = ''application/json'',
               put_Key = cloudKey (config ?bc) (s3Config ?bc) (upload_options ?bc)
                           ''mycli-v1.2.3-abc1234-linux-x64-buildmanifest''\<rparr> False
            \<in> set (fst (UploadTarballs_run ?w2 False ?bc))"
    by blast
  have ev: "fst (UploadTarballs_run ?w False ?bc)
     = [Log ''uploading targets'',
         UploadFile ''dist/mycli-v1.2.3-abc1234-linux-x64.tar.gz''
           \<lparr>put_ACL = ''public-read'', put_Bucket = Some ''my-bucket'',
            put_CacheControl = ''max-age=604800'', put_ContentType = ''application/gzip'',
            put_Key = ''versions/1.2.3/abc1234/mycli-v1.2.3-abc1234-linux-x64.tar.gz''\<rparr> False,
         Log ''checking for buildmanifest at dist/mycli-v1.2.3-abc1234-linux-x64-buildmanifest'',
         Warn (''Cannot find buildmanifest dist/mycli-v1.2.3-abc1234-linux-x64-buildmanifest''
               @ ''. CLI will not be able to update itself.''),
         Log ''done uploading tarballs & manifests for v1.2.3-abc1234'']"
    by (simp add: upload_defs key_defs test_defs)
  have run2: "UploadTarballs_run ?w2 False ?bc
     = ([Log ''uploading targets'',
         UploadFile ''dist/mycli-v1.2.3-abc1234-linux-x64.tar.gz''
           \<lparr>put_ACL = ''public-read'', put_Bucket = Some ''my-bucket'',
            put_CacheControl = ''max-age=604800'', put_ContentType = ''application/gzip'',
            put_Key = ''versions/1.2.3/abc1234/mycli-v1.2.3-abc1234-linux-x64.tar.gz''\<rparr> False,
         Log ''checking for buildmanifest at dist/mycli-v1.2.3-abc1234-linux-x64-buildmanifest'',
         Log ''uploading buildmanifest mycli-v1.2.3-abc1234-linux-x64-buildmanifest'',
         UploadFile ''dist/mycli-v1.2.3-abc1234-linux-x64-buildmanifest''
           \<lparr>put_ACL = ''public-read'', put_Bucket = Some ''my-bucket'',
            put_CacheControl = ''max-age=86400'', put_ContentType = ''application/json'',
            put_Key = ''versions/1.2.3/abc1234/mycli-v1.2.3-abc1234-linux-x64-buildmanifest''\<rparr>
           False,
         Log ''done uploading tarballs & manifests for v1.2.3-abc1234''], [])"
    by (simp add: upload_defs key_defs test_defs)
  have d: "dist ?bc ''mycli-v1.2.3-abc1234-linux-x64-buildmanifest''
           = ''dist/mycli-v1.2.3-abc1234-linux-x64-buildmanifest''"
    by (simp add: test_buildConfig_def)
  have run: "UploadTarballs_run ?w False ?bc
             = (fst (UploadTarballs_run ?w False ?bc), [])"
    using ok by (simp add: prod_eq_iff)
  show ?thesis
    using m t a f p f2 run2 warned
    unfolding d
    by (subst run) (simp add: ev)
qed

text \<open>
  C9. When the storage configuration has no ACL, every upload of the upload command and
  every copy of the promote command is issued with the canned ACL \<open>public-read\<close>.
\<close>

theorem default_acl_is_public_read:
  assumes "acl (s3Config bc) = None"
  shows "(\<forall>local params dry'.
            UploadFile local params dry' \<in> set (fst (UploadTarballs_run w dry bc))
            \<longrightarrow> put_ACL params = ''public-read'')
       \<and> (\<forall>params opts.
            CopyObject params opts \<in> set (fst (Promote_run w flags bc))
            \<longrightarrow> ACL params = ''public-read'')"
  using public_read_UploadTarballs_run [OF assms, of w dry]
    public_read_Promote_run [OF assms, of w flags]
  by (force simp add: public_read_def)

theorem default_acl_is_public_read_witness:
  "acl (s3Config (test_buildConfig (test_config False) [linux_x64] False)) = None
   \<and> UploadFile ''dist/mycli-v1.2.3-abc1234-linux-x64.tar.gz''
        \<lparr>put_ACL = ''public-read'', put_Bucket = Some ''my-bucket'',
         put_CacheControl = ''max-age=604800'', put_ContentType = ''application/gzip'',
         put_Key = ''versions/1.2.3/abc1234/mycli-v1.2.3-abc1234-linux-x64.tar.gz''\<rparr> False
      \<in> set (fst (UploadTarballs_run (test_world [''dist/mycli-v1.2.3-abc1234-linux-x64.tar.gz''])
                    False (test_buildConfig (test_config False) [linux_x64] False)))
   \<and> CopyObject
        \<lparr>ACL = ''public-read'', Bucket = ''my-bucket'', CacheControl = ''max-age=86400'',
         CopySource = ''my-bucket/versions/1.2.3/abc1234/mycli-v1.2.3-abc1234-linux-x64.tar.gz'',
         Key = ''channels/stable/mycli-linux-x64.tar.gz'', MetadataDirective = ''REPLACE''\<rparr>
        \<lparr>dryRun = False, ignoreMissing = False, namespace = ''mycli-linux-x64.tar.gz''\<rparr>
      \<in> set (fst (Promote_run (test_world [''dist/mycli-v1.2.3-abc1234-linux-x64.tar.gz'']) test_flags
                    (test_buildConfig (test_config False) [linux_x64] False)))"
proof -
  let ?bc = "test_buildConfig (test_config False) [linux_x64] False"
  let ?w = "test_world [''dist/mycli-v1.2.3-abc1234-linux-x64.tar.gz'']"
  have h: "acl (s3Config ?bc) = None"
    by (simp add: test_defs)
  have "\<exists>a. UploadFile ''dist/mycli-v1.2.3-abc1234-linux-x64.tar.gz''
        \<lparr>put_ACL = a, put_Bucket = Some ''my-bucket'',
         put_CacheControl = ''max-age=604800'', put_ContentType = ''application/gzip'',
         put_Key = ''versions/1.2.3/abc1234/mycli-v1.2.3-abc1234-linux-x64.tar.gz''\<rparr> False
      \<in> set (fst (UploadTarballs_run ?w False ?bc))"
    by (simp add: upload_defs key_defs test_defs)
  then obtain a where u: "UploadFile ''dist/mycli-v1.2.3-abc1234-linux-x64.tar.gz''
        \<lparr>put_ACL = a, put_Bucket = Some ''my-bucket'',
         put_CacheControl = ''max-age=604800'', put_ContentType = ''application/gzip'',
         put_Key = ''versions/1.2.3/abc1234/mycli-v1.2.3-abc1234-linux-x64.tar.gz''\<rparr> False
      \<in> set (fst (UploadTarballs_run ?w False ?bc))"
    by blast
  have "\<exists>a. CopyObject
        \<lparr>ACL = a, Bucket = ''my-bucket'', CacheControl = ''max-age=86400'',
         CopySource = ''my-bucket/versions/1.2.3/abc1234/mycli-v1.2.3-abc1234-linux-x64.tar.gz'',
         Key = ''channels/stable/mycli-linux-x64.tar.gz'', MetadataDirective = ''REPLACE''\<rparr>
        \<lparr>dryRun = False, ignoreMissing = False, namespace = ''mycli-linux-x64.tar.gz''\<rparr>
      \<in> set (fst (Promote_run ?w test_flags ?bc))"
    by (simp add: promote_defs key_defs test_defs)
  then obtain a' where c: "CopyObject
        \<lparr>ACL = a', Bucket = ''my-bucket'', CacheControl = ''max-age=86400'',
         CopySource = ''my-bucket/versions/1.2.3/abc1234/mycli-v1.2.3-abc1234-linux-x64.tar.gz'',
         Key = ''channels/stable/mycli-linux-x64.tar.gz'', MetadataDirective = ''REPLACE''\<rparr>
        \<lparr>dryRun = False, ignoreMissing = False, namespace = ''mycli-linux-x64.tar.gz''\<rparr>
      \<in> set (fst (Promote_run ?w test_flags ?bc))"
    by blast
  from default_acl_is_public_read [OF h, of ?w False test_flags] u c
  have "a = ''public-read''" "a' = ''public-read''"
    by fastforce+
  with h u c show ?thesis
    by simp
qed

text \<open>
  C10. The check before the uploads looks at the \<open>.tar.gz\<close> tarballs only. When they
  are all on disk and xz is enabled, the check passes whether or not a \<open>.tar.xz\<close>
  tarball exists, the upload of every target's \<open>.tar.xz\<close> is issued, and the run fails
  with the error of that upload if the storage client rejects it.
\<close>

theorem xz_tarball_not_checked:
  assumes "\<forall>t\<in>set (targets bc). \<forall>k.
             versioned (config bc) (s3Config bc) (upload_options bc) TarGz t = Inr k
             \<longrightarrow> existsSync w (dist bc k)"
    and "xz bc"
    and "t \<in> set (targets bc)"
    and "versioned (config bc) (s3Config bc) (upload_options bc) TarXz t = Inr kx"
  shows "fail_early w bc (targets bc) = None
       \<and> UploadFile (dist bc kx)
           \<lparr>put_ACL = S3Options_ACL (s3Config bc), put_Bucket = bucket (s3Config bc),
            put_CacheControl = ''max-age=604800'', put_ContentType = ''application/gzip'',
            put_Key = cloudKey (config bc) (s3Config bc) (upload_options bc) kx\<rparr> dry
         \<in> set (fst (UploadTarballs_run w dry bc))
       \<and> set (rejected (uploadFile_rejects w (dist bc kx)
                 \<lparr>put_ACL = S3Options_ACL (s3Config bc), put_Bucket = bucket (s3Config bc),
                  put_CacheControl = ''max-age=604800'', put_ContentType = ''application/gzip'',
                  put_Key = cloudKey (config bc) (s3Config bc) (upload_options bc) kx\<rparr> dry))
         \<subseteq> set (snd (UploadTarballs_run w dry bc))"
proof -
  let ?up = "UploadFile (dist bc kx)
           \<lparr>put_ACL = S3Options_ACL (s3Config bc), put_Bucket = bucket (s3Config bc),
            put_CacheControl = ''max-age=604800'', put_ContentType = ''application/gzip'',
            put_Key = cloudKey (config bc) (s3Config bc) (upload_options bc) kx\<rparr> dry"
  have pass: "fail_early w bc (targets bc) = None"
    using assms(1) by (rule fail_early_present)
  have issued: "?up \<in> set (fst (UploadTarballs_run w dry bc))"
    using uploadTarball_xz [OF assms(2,4)] UploadTarballs_run_events [OF pass assms(3)]
    by blast
  have "set (rejections w ?up) \<subseteq> set (concat (map (rejections w) (fst (UploadTarballs_run w dry bc))))"
    using issued by auto
  then have "set (rejections w ?up) \<subseteq> set (snd (UploadTarballs_run w dry bc))"
    by (simp add: UploadTarballs_run_rejections [OF pass])
  with pass issued show ?thesis
    by (simp add: rejections_def)
qed

theorem xz_tarball_not_checked_witness:
  "xz (test_buildConfig (test_config False) [linux_x64] True)
   \<and> linux_x64 \<in> set (targets (test_buildConfig (test_config False) [linux_x64] True))
   \<and> existsSync (test_world [''dist/mycli-v1.2.3-abc1234-linux-x64.tar.gz''])
        ''dist/mycli-v1.2.3-abc1234-linux-x64.tar.gz''
   \<and> \<not> existsSync (test_world [''dist/mycli-v1.2.3-abc1234-linux-x64.tar.gz''])
        ''dist/mycli-v1.2.3-abc1234-linux-x64.tar.xz''
   \<and> fail_early (test_world [''dist/mycli-v1.2.3-abc1234-linux-x64.tar.gz''])
        (test_buildConfig (test_config False) [linux_x64] True)
        (targets (test_buildConfig (test_config False) [linux_x64] True)) = None
   \<and> UploadFile ''dist/mycli-v1.2.3-abc1234-linux-x64.tar.xz''
        \<lparr>put_ACL = ''public-read'', put_Bucket = Some ''my-bucket'',
         put_CacheControl = ''max-age=604800'', put_ContentType = ''application/gzip'',
         put_Key = ''versions/1.2.3/abc1234/mycli-v1.2.3-abc1234-linux-x64.tar.xz''\<rparr> False
      \<in> set (fst (UploadTarballs_run (test_world [''dist/mycli-v1.2.3-abc1234-linux-x64.tar.gz''])
                    False (test_buildConfig (test_config False) [linux_x64] True)))
   \<and> UploadTarballs_run (test_world [''dist/mycli-v1.2.3-abc1234-linux-x64.tar.gz'']) False
        (test_buildConfig (test_config False) [linux_x64] True)
     = ([Log ''uploading targets'',
         UploadFile ''dist/mycli-v1.2.3-abc1234-linux-x64.tar.gz''
           \<lparr>put_ACL = ''public-read'', put_Bucket = Some ''my-bucket'',
            put_CacheControl = ''max-age=604800'', put_ContentType = ''application/gzip'',
            put_Key = ''versions/1.2.3/abc1234/mycli-v1.2.3-abc1234-linux-x64.tar.gz''\<rparr> False,
         Log ''checking for buildmanifest at dist/mycli-v1.2.3-abc1234-linux-x64-buildmanifest'',
         Warn (''Cannot find buildmanifest dist/mycli-v1.2.3-abc1234-linux-x64-buildmanifest''
               @ ''. CLI will not be able to update itself.''),
         UploadFile ''dist/mycli-v1.2.3-abc1234-linux-x64.tar.xz''
           \<lparr>put_ACL = ''public-read'', put_Bucket = Some ''my-bucket'',
            put_CacheControl = ''max-age=604800'', put_ContentType = ''application/gzip'',
            put_Key = ''versions/1.2.3/abc1234/mycli-v1.2.3-abc1234-linux-x64.tar.xz''\<rparr> False],
        [ClientError (''ENOENT: no such file or directory, open ''
                      @ ''dist/mycli-v1.2.3-abc1234-linux-x64.tar.xz'')])"
proof -
  let ?bc = "test_buildConfig (test_config False) [linux_x64] True"
  let ?w = "test_world [''dist/mycli-v1.2.3-abc1234-linux-x64.tar.gz'']"
  have gz: "versioned (config ?bc) (s3Config ?bc) (upload_options ?bc) TarGz linux_x64
            = Inr ''mycli-v1.2.3-abc1234-linux-x64.tar.gz''"
    by (simp add: key_defs upload_options_def test_defs)
  have h1: "\<forall>t\<in>set (targets ?bc). \<forall>k.
             versioned (config ?bc) (s3Config ?bc) (upload_options ?bc) TarGz t = Inr k
             \<longrightarrow> existsSync ?w (dist ?bc k)"
    using gz by (auto simp add: test_buildConfig_def test_world_def)
  have h2: "xz ?bc"
    by (simp add: test_buildConfig_def)
  have h3: "linux_x64 \<in> set (targets ?bc)"
    by (simp add: test_buildConfig_def)
  have h4: "versioned (config ?bc) (s3Config ?bc) (upload_options ?bc) TarXz linux_x64
            = Inr ''mycli-v1.2.3-abc1234-linux-x64.tar.xz''"
    by (simp add: key_defs upload_options_def test_defs)
  have vals: "S3Options_ACL (s3Config ?bc) = ''public-read''"
    "bucket (s3Config ?bc) = Some ''my-bucket''"
    "dist ?bc ''mycli-v1.2.3-abc1234-linux-x64.tar.xz''
     = ''dist/mycli-v1.2.3-abc1234-linux-x64.tar.xz''"
    "cloudKey (config ?bc) (s3Config ?bc) (upload_options ?bc)
       ''mycli-v1.2.3-abc1234-linux-x64.tar.xz''
     = ''versions/1.2.3/abc1234/mycli-v1.2.3-abc1234-linux-x64.tar.xz''"
    by (simp_all add: key_defs upload_options_def S3Options_ACL_def test_defs)
  have ex: "existsSync ?w ''dist/mycli-v1.2.3-abc1234-linux-x64.tar.gz''"
    "\<not> existsSync ?w ''dist/mycli-v1.2.3-abc1234-linux-x64.tar.xz''"
    by (simp_all add: test_world_def)
  have run: "UploadTarballs_run ?w False ?bc
     = ([Log ''uploading targets'',
         UploadFile ''dist/mycli-v1.2.3-abc1234-linux-x64.tar.gz''
           \<lparr>put_ACL = ''public-read'', put_Bucket = Some ''my-bucket'',
            put_CacheControl = ''max-age=604800'', put_ContentType = ''application/gzip'',
            put_Key = ''versions/1.2.3/abc1234/mycli-v1.2.3-abc1234-linux-x64.tar.gz''\<rparr> False,
         Log ''checking for buildmanifest at dist/mycli-v1.2.3-abc1234-linux-x64-buildmanifest'',
         Warn (''Cannot find buildmanifest dist/mycli-v1.2.3-abc1234-linux-x64-buildmanifest''
               @ ''. CLI will not be able to update itself.''),
         UploadFile ''dist/mycli-v1.2.3-abc1234-linux-x64.tar.xz''
           \<lparr>put_ACL = ''public-read'', put_Bucket = Some ''my-bucket'',
            put_CacheControl = ''max-age=604800'', put_ContentType = ''application/gzip'',
            put_Key = ''versions/1.2.3/abc1234/mycli-v1.2.3-abc1234-linux-x64.tar.xz''\<rparr> False],
        [ClientError (''ENOENT: no such file or directory, open ''
                      @ ''dist/mycli-v1.2.3-abc1234-linux-x64.tar.xz'')])"
    by (simp add: upload_defs key_defs test_defs)
  from xz_tarball_not_checked [OF h1 h2 h3 h4, of False] have
    "fail_early ?w ?bc (targets ?bc) = None"
    "UploadFile ''dist/mycli-v1.2.3-abc1234-linux-x64.tar.xz''
        \<lparr>put_ACL = ''public-read'', put_Bucket = Some ''my-bucket'',
         put_CacheControl = ''max-age=604800'', put_ContentType = ''application/gzip'',
         put_Key = ''versions/1.2.3/abc1234/mycli-v1.2.3-abc1234-linux-x64.tar.xz''\<rparr> False
      \<in> set (fst (UploadTarballs_run ?w False ?bc))"
    unfolding vals by blast+
  with h2 h3 ex run show ?thesis
    by blast
qed

text \<open>
  C7, amended. When every linux target whose architecture is not an x86 variant has a
  Debian architecture, the Debian promotion issues, for the \<open>.deb\<close> of each such target
  and then for \<open>Packages.gz\<close>, \<open>Packages.xz\<close>, \<open>Packages.bz2\<close>, \<open>Release\<close>,
  \<open>InRelease\<close> and \<open>Release.gpg\<close>, two copies from the \<open>apt/\<close> path of the commit
  directory: one to the channel key \<open>apt/<artifact>\<close> and one to \<open>apt/./<artifact>\<close>.
  Each copy is rejected or not on its own. Linux targets with an x86 architecture add no
  \<open>.deb\<close>. (One linux target with any other architecture makes \<open>debArch\<close> throw while
  the list of artifacts is built, and then nothing is copied.)
\<close>

theorem debian_promotion_copies:
  assumes "\<forall>t\<in>set (targets bc).
             platform t = ''linux'' \<and> \<not> str_includes (arch t) ''x86''
             \<longrightarrow> (\<exists>d. debArch (arch t) = Inr d)"
  shows "fst (promoteDebianAptPackages w flags bc bkt)
         = concat (map (\<lambda>artifact.
              [CopyObject
                 (awsDefaults flags bc bkt (cloudBucketCommitKey flags bc bkt (''apt/'' @ artifact))
                    (cloudChannelKey flags bc (''apt/'' @ artifact)))
                 (copy_options flags (cloudChannelKey flags bc (''apt/'' @ artifact))),
               CopyObject
                 (awsDefaults flags bc bkt (cloudBucketCommitKey flags bc bkt (''apt/'' @ artifact))
                    (cloudChannelKey flags bc ''apt/'' @ ''./'' @ artifact))
                 (copy_options flags (cloudChannelKey flags bc ''apt/'' @ ''./'' @ artifact))])
            (map (\<lambda>t. config_bin (config bc) @ ''_'' @ debVersion bc @ ''_''
                       @ (case debArch (arch t) of Inl e \<Rightarrow> [] | Inr d \<Rightarrow> d) @ ''.deb'')
               (filter (\<lambda>t. platform t = ''linux'' \<and> \<not> str_includes (arch t) ''x86'')
                  (targets bc))
             @ [''Packages.gz'', ''Packages.xz'', ''Packages.bz2'', ''Release'', ''InRelease'',
                ''Release.gpg'']))
       \<and> snd (promoteDebianAptPackages w flags bc bkt)
         = concat (map (rejections w) (fst (promoteDebianAptPackages w flags bc bkt)))"
proof -
  have ev: "fst (promise_all (concat (map (promoteArtifact w flags bc bkt) arts)))
        = concat (map (\<lambda>artifact.
              [CopyObject
                 (awsDefaults flags bc bkt (cloudBucketCommitKey flags bc bkt (''apt/'' @ artifact))
                    (cloudChannelKey flags bc (''apt/'' @ artifact)))
                 (copy_options flags (cloudChannelKey flags bc (''apt/'' @ artifact))),
               CopyObject
                 (awsDefaults flags bc bkt (cloudBucketCommitKey flags bc bkt (''apt/'' @ artifact))
                    (cloudChannelKey flags bc ''apt/'' @ ''./'' @ artifact))
                 (copy_options flags (cloudChannelKey flags bc ''apt/'' @ ''./'' @ artifact))])
            arts)" for arts
    by (induction arts)
       (simp_all add: promise_all_def promoteArtifact_def copyObject_def Let_def)
  have rj: "snd (promise_all (concat (map (promoteArtifact w flags bc bkt) arts)))
        = concat (map (rejections w)
            (fst (promise_all (concat (map (promoteArtifact w flags bc bkt) arts)))))" for arts
    by (rule promise_all_rejections)
       (auto simp add: promoteArtifact_def copyObject_def rejections_def Let_def)
  have "promoteDebianAptPackages w flags bc bkt
        = promise_all (concat (map (promoteArtifact w flags bc bkt)
            (map (\<lambda>t. config_bin (config bc) @ ''_'' @ debVersion bc @ ''_''
                       @ (case debArch (arch t) of Inl e \<Rightarrow> [] | Inr d \<Rightarrow> d) @ ''.deb'')
               (filter (\<lambda>t. platform t = ''linux'' \<and> \<not> str_includes (arch t) ''x86'')
                  (targets bc))
             @ [''Packages.gz'', ''Packages.xz'', ''Packages.bz2'', ''Release'', ''InRelease'',
                ''Release.gpg''])))"
    by (simp only: promoteDebianAptPackages_def with_key_def debArtifacts_mapped [OF assms]
        sum.case)
  then show ?thesis
    by (simp only: ev rj)
qed

theorem debian_promotion_copies_witness:
  "map (\<lambda>e. case e of CopyObject p opts \<Rightarrow> (CopySource p, Key p) | _ \<Rightarrow> ([], []))
     (fst (promoteDebianAptPackages (test_world []) test_flags
             (test_buildConfig (test_config False)
                [linux_x64, \<lparr>arch = ''x86'', platform = ''linux''\<rparr>, darwin_arm64] False)
             ''my-bucket''))
   = [(''my-bucket/versions/1.2.3/abc1234/apt/mycli_1.2.3.abc1234-1_amd64.deb'',
       ''channels/stable/apt/mycli_1.2.3.abc1234-1_amd64.deb''),
      (''my-bucket/versions/1.2.3/abc1234/apt/mycli_1.2.3.abc1234-1_amd64.deb'',
       ''channels/stable/apt/./mycli_1.2.3.abc1234-1_amd64.deb''),
      (''my-bucket/versions/1.2.3/abc1234/apt/Packages.gz'', ''channels/stable/apt/Packages.gz''),
      (''my-bucket/versions/1.2.3/abc1234/apt/Packages.gz'', ''channels/stable/apt/./Packages.gz''),
      (''my-bucket/versions/1.2.3/abc1234/apt/Packages.xz'', ''channels/stable/apt/Packages.xz''),
      (''my-bucket/versions/1.2.3/abc1234/apt/Packages.xz'', ''channels/stable/apt/./Packages.xz''),
      (''my-bucket/versions/1.2.3/abc1234/apt/Packages.bz2'', ''channels/stable/apt/Packages.bz2''),
      (''my-bucket/versions/1.2.3/abc1234/apt/Packages.bz2'', ''channels/stable/apt/./Packages.bz2''),
      (''my-bucket/versions/1.2.3/abc1234/apt/Release'', ''channels/stable/apt/Release''),
      (''my-bucket/versions/1.2.3/abc1234/apt/Release'', ''channels/stable/apt/./Release''),
      (''my-bucket/versions/1.2.3/abc1234/apt/InRelease'', ''channels/stable/apt/InRelease''),
      (''my-bucket/versions/1.2.3/abc1234/apt/InRelease'', ''channels/stable/apt/./InRelease''),
      (''my-bucket/versions/1.2.3/abc1234/apt/Release.gpg'', ''channels/stable/apt/Release.gpg''),
      (''my-bucket/versions/1.2.3/abc1234/apt/Release.gpg'', ''channels/stable/apt/./Release.gpg'')]
   \<and> snd (promoteDebianAptPackages (test_world []) test_flags
             (test_buildConfig (test_config False)
                [linux_x64, \<lparr>arch = ''x86'', platform = ''linux''\<rparr>, darwin_arm64] False)
             ''my-bucket'') = []"
proof -
  let ?bc = "test_buildConfig (test_config False)
                [linux_x64, \<lparr>arch = ''x86'', platform = ''linux''\<rparr>, darwin_arm64] False"
  have h: "\<forall>t\<in>set (targets ?bc).
             platform t = ''linux'' \<and> \<not> str_includes (arch t) ''x86''
             \<longrightarrow> (\<exists>d. debArch (arch t) = Inr d)"
    by (simp add: test_defs debArch_def str_includes_def)
  show ?thesis
    unfolding debian_promotion_copies [OF h, of "test_world []" test_flags "''my-bucket''",
        THEN conjunct2]
    unfolding debian_promotion_copies [OF h, of "test_world []" test_flags "''my-bucket''",
        THEN conjunct1]
    by (simp add: test_defs debArch_def debVersion_def str_includes_def awsDefaults_def
        cloudBucketCommitKey_def cloudChannelKey_def copy_options_def key_defs rejections_def
        rejected_def)
qed

theorem debian_promotion_copies_counterexample:
  "platform linux_x64 = ''linux''
   \<and> \<not> str_includes (arch linux_x64) ''x86''
   \<and> debArch (arch linux_x64) = Inr ''amd64''
   \<and> \<not> str_includes ''s390x'' ''x86''
   \<and> debArch ''s390x'' = Inl (InvalidArch ''invalid arch: s390x'')
   \<and> promoteDebianAptPackages (test_world []) test_flags
        (test_buildConfig (test_config False)
           [linux_x64, \<lparr>arch = ''s390x'', platform = ''linux''\<rparr>] False)
        ''my-bucket''
     = ([], [InvalidArch ''invalid arch: s390x''])"
  by (simp add: promote_defs key_defs test_defs)

end
